theory Spec2Isabelle
  imports Complex_Main "HOL-Library.Sublist" "HOL-Library.List_Lexorder"
begin

section \<open>Session digest: a model of scripts/session\_digest.py\<close>

text \<open>
  The script reads JSONL session logs, folds each into a session dictionary
  (\<open>parse_session\<close>), selects the sessions of one local calendar day
  (\<open>process_date\<close>), renders them (\<open>generate_digest\<close>) and writes one digest
  file. The model follows the script function by function. Python exceptions
  are values of type \<open>error\<close>; a function that can raise returns
  \<open>error + 'a\<close> with \<open>Inl\<close> for the exception.

  Functions of the Python standard library that the script calls and that are
  not part of the repository (\<open>json.loads\<close>, \<open>datetime.fromisoformat\<close>,
  \<open>datetime.strptime\<close>, \<open>str.lower\<close>, \<open>str()\<close> formatting, the system's local
  zone) are fields of the record \<open>pylib\<close>; every general theorem holds for
  every value of that record.
\<close>

subsection \<open>Python strings\<close>

text \<open>
  A Python \<open>str\<close> is a sequence of Unicode code points, and \<open>len\<close>, slicing
  and the regular expressions of the script count code points. A string is
  therefore a list of code points (natural numbers); \<open>u\<close> embeds an ASCII
  literal.
\<close>

type_synonym ustr = "nat list"

definition u :: "string \<Rightarrow> ustr" where
  "u s = map of_char s"

text \<open>\<open>str.isspace\<close> on one code point, which is also the class \<open>\s\<close> of \<open>re\<close>
  on \<open>str\<close> patterns (CPython's \<open>Py_UNICODE_ISSPACE\<close>).\<close>

definition isspace :: "nat \<Rightarrow> bool" where
  "isspace c = ((9 \<le> c \<and> c \<le> 13) \<or> (28 \<le> c \<and> c \<le> 32) \<or> c = 133 \<or> c = 160
     \<or> c = 5760 \<or> (8192 \<le> c \<and> c \<le> 8202) \<or> c = 8232 \<or> c = 8233
     \<or> c = 8239 \<or> c = 8287 \<or> c = 12288)"

text \<open>\<open>s.strip()\<close>: whitespace removed at both ends.\<close>

definition strip :: "ustr \<Rightarrow> ustr" where
  "strip s = rev (dropWhile isspace (rev (dropWhile isspace s)))"

text \<open>\<open>sub in s\<close> for strings: \<open>sub\<close> occurs at some position of \<open>s\<close>.\<close>

fun contains :: "ustr \<Rightarrow> ustr \<Rightarrow> bool" where
  "contains sub [] = (sub = [])"
| "contains sub (c # cs) = (prefix sub (c # cs) \<or> contains sub cs)"

text \<open>\<open>s.replace("Z", "+00:00")\<close>: every occurrence of the one-character
  string is replaced.\<close>

definition replace_Z :: "ustr \<Rightarrow> ustr" where
  "replace_Z s = concat (map (\<lambda>c. if c = 90 then u ''+00:00'' else [c]) s)"

text \<open>\<open>sep.join(xs)\<close>.\<close>

fun join :: "ustr \<Rightarrow> ustr list \<Rightarrow> ustr" where
  "join sep [] = []"
| "join sep [x] = x"
| "join sep (x # y # ys) = x @ sep @ join sep (y # ys)"

subsection \<open>The cron marker\<close>

text \<open>
  The script uses two regular expressions:
  \<^item> \<^verbatim>\<open>re.search(r"\[cron:\S+\s+(.+?)\]", text)\<close> in \<open>parse_session\<close>,
  \<^item> \<^verbatim>\<open>re.sub(r"\[cron:\S+\s+.+?\]\s*", "", text)\<close> in \<open>generate_digest\<close>.

  Both are modelled by the backtracking search that \<open>re\<close> performs, written
  out for this pattern. An attempt at one position reads the literal
  \<^verbatim>\<open>[cron:\<close>, then \<^verbatim>\<open>\S+\<close> (greedy: the longest run first, then shorter ones),
  then \<^verbatim>\<open>\s+\<close> (greedy), then \<^verbatim>\<open>.+?\<close> (lazy: the shortest run of characters
  other than newline first) followed by \<^verbatim>\<open>]\<close>. The first alternative that
  succeeds is the match. Each function returns the text of the group
  \<^verbatim>\<open>(.+?)\<close> and the input that follows the closing bracket.
\<close>

text \<open>\<^verbatim>\<open>.+?\]\<close>: \<open>acc\<close> holds the characters the lazy group has consumed.\<close>

fun lazy_name :: "ustr \<Rightarrow> ustr \<Rightarrow> (ustr \<times> ustr) option" where
  "lazy_name acc [] = None"
| "lazy_name acc (c # cs) =
     (if c = 10 then None
      else (case cs of
              [] \<Rightarrow> None
            | d # ds \<Rightarrow> if d = 93 then Some (acc @ [c], ds)
                       else lazy_name (acc @ [c]) cs))"

text \<open>\<^verbatim>\<open>\s+\<close> having consumed \<open>j\<close> characters, then \<open>j - 1\<close>, down to one.\<close>

fun try_spaces :: "nat \<Rightarrow> ustr \<Rightarrow> (ustr \<times> ustr) option" where
  "try_spaces 0 xs = None"
| "try_spaces (Suc j) xs =
     (case lazy_name [] (drop (Suc j) xs) of
        Some r \<Rightarrow> Some r
      | None \<Rightarrow> try_spaces j xs)"

definition spaces_then_name :: "ustr \<Rightarrow> (ustr \<times> ustr) option" where
  "spaces_then_name xs = try_spaces (length (takeWhile isspace xs)) xs"

text \<open>\<^verbatim>\<open>\S+\<close> having consumed \<open>k\<close> characters, then \<open>k - 1\<close>, down to one.\<close>

fun try_job :: "nat \<Rightarrow> ustr \<Rightarrow> (ustr \<times> ustr) option" where
  "try_job 0 xs = None"
| "try_job (Suc k) xs =
     (case spaces_then_name (drop (Suc k) xs) of
        Some r \<Rightarrow> Some r
      | None \<Rightarrow> try_job k xs)"

definition cron_prefix :: ustr where
  "cron_prefix = u ''[cron:''"

text \<open>One attempt of the pattern at the start of \<open>xs\<close>.\<close>

definition match_at :: "ustr \<Rightarrow> (ustr \<times> ustr) option" where
  "match_at xs =
     (if prefix cron_prefix xs
      then (let rest = drop (length cron_prefix) xs
            in try_job (length (takeWhile (\<lambda>c. \<not> isspace c) rest)) rest)
      else None)"

text \<open>\<open>re.search\<close>: the leftmost position with a match; the result is
  \<open>m.group(1)\<close>, and \<open>None\<close> when there is no match.\<close>

fun cron_search :: "ustr \<Rightarrow> ustr option" where
  "cron_search [] = None"
| "cron_search (c # cs) =
     (case match_at (c # cs) of
        Some (g, rest) \<Rightarrow> Some g
      | None \<Rightarrow> cron_search cs)"

text \<open>\<open>re.sub\<close> with the empty replacement: scan from the left; where the
  pattern matches, drop the match together with the whitespace that follows
  the bracket (\<^verbatim>\<open>\s*\<close>, greedy, nothing after it) and go on behind it; elsewhere
  keep the character.\<close>

function cron_sub :: "ustr \<Rightarrow> ustr" where
  "cron_sub [] = []"
| "cron_sub (c # cs) =
     (case match_at (c # cs) of
        Some (g, rest) \<Rightarrow> cron_sub (dropWhile isspace rest)
      | None \<Rightarrow> c # cron_sub cs)"
  by pat_completeness auto
termination
proof (relation "measure length")
  show "wf (measure length)" by simp
next
  fix c :: nat and cs :: ustr and x2 g rest
  assume m: "match_at (c # cs) = Some x2" and x: "(g, rest) = x2"
  have lazy: "lazy_name acc xs = Some (h, r) \<Longrightarrow> length r < length xs"
    for acc xs h r
  proof (induction acc xs rule: lazy_name.induct)
    case (1 acc)
    then show ?case by simp
  next
    case (2 acc c cs)
    then show ?case
      by (cases cs) (auto split: if_splits)
  qed
  have spaces: "try_spaces j xs = Some (h, r) \<Longrightarrow> length r < length xs"
    for j xs h r
    by (induction j) (auto split: option.splits dest!: lazy)
  have job: "try_job k xs = Some (h, r) \<Longrightarrow> length r < length xs"
    for k xs h r
    by (induction k)
      (auto simp: spaces_then_name_def split: option.splits dest!: spaces)
  from m x have "length rest < length (c # cs)"
    by (auto simp: match_at_def Let_def split: if_splits dest!: job)
  moreover have "length (dropWhile isspace rest) \<le> length rest"
    by (rule length_dropWhile_le)
  ultimately show "(dropWhile isspace rest, c # cs) \<in> measure length" by simp
next
  fix c :: nat and cs :: ustr
  show "(cs, c # cs) \<in> measure length" by simp
qed

subsection \<open>JSON values and exceptions\<close>

text \<open>
  What \<open>json.loads\<close> returns: \<open>None\<close>, a \<open>bool\<close>, an \<open>int\<close>, a \<open>float\<close>, a
  \<open>str\<close>, a \<open>list\<close> or a \<open>dict\<close> with string keys. A dictionary is an
  association list read with \<open>map_of\<close>. A float is a rational, an infinity
  or NaN (the decoder accepts \<^verbatim>\<open>NaN\<close> and \<^verbatim>\<open>Infinity\<close>); the script only
  tests floats for truth and equality.
\<close>

datatype pyfloat = Finite rat | PosInf | NegInf | NaN

datatype json =
    JNull
  | JBool bool
  | JInt int
  | JFloat pyfloat
  | JStr ustr
  | JList "json list"
  | JDict "(ustr \<times> json) list"

text \<open>The exceptions that the modelled code can raise.\<close>

datatype error = AttributeError | TypeError | ValueError | OverflowError | RecursionError

text \<open>
  The outcomes of \<open>json.loads(line)\<close>: a decoded value; \<open>JSONDecodeError\<close>,
  which the loop of \<open>parse_session\<close> catches; or another exception, which it
  does not catch (\<open>ValueError\<close> for an integer literal beyond the digit limit
  of \<open>int\<close>, \<open>RecursionError\<close> for a value nested too deeply).
\<close>

datatype decoding = Decoded json | JSONDecodeError | Raised error

text \<open>\<open>d.get(key, default)\<close>.\<close>

definition dget :: "(ustr \<times> json) list \<Rightarrow> ustr \<Rightarrow> json \<Rightarrow> json" where
  "dget d k dflt = (case map_of d k of None \<Rightarrow> dflt | Some v \<Rightarrow> v)"

text \<open>Truth value of an object, as \<open>if timestamp:\<close> and \<open>if name\<close> test it.\<close>

fun truthy :: "json \<Rightarrow> bool" where
  "truthy JNull = False"
| "truthy (JBool b) = b"
| "truthy (JInt i) = (i \<noteq> 0)"
| "truthy (JFloat f) = (f \<noteq> Finite 0)"
| "truthy (JStr s) = (s \<noteq> [])"
| "truthy (JList xs) = (xs \<noteq> [])"
| "truthy (JDict d) = (d \<noteq> [])"

text \<open>
  \<open>a == b\<close> on decoded values, as \<open>name not in session["tools_used"]\<close> uses
  it: \<open>True == 1 == 1.0\<close>, otherwise values of different types differ; lists
  are compared element by element, dictionaries key by key. (\<open>NaN\<close> is the one
  object \<open>json.decoder.NaN\<close>, which containment tests accept by identity.)
\<close>

fun numeric :: "json \<Rightarrow> pyfloat option" where
  "numeric (JBool b) = Some (Finite (if b then 1 else 0))"
| "numeric (JInt i) = Some (Finite (of_int i))"
| "numeric (JFloat f) = Some f"
| "numeric _ = None"

fun py_eq :: "json \<Rightarrow> json \<Rightarrow> bool" where
  "py_eq JNull b = (b = JNull)"
| "py_eq (JBool x) b = (numeric b = numeric (JBool x))"
| "py_eq (JInt x) b = (numeric b = numeric (JInt x))"
| "py_eq (JFloat x) b = (numeric b = Some x)"
| "py_eq (JStr s) b = (b = JStr s)"
| "py_eq (JList xs) b =
     (case b of JList ys \<Rightarrow> list_all2 py_eq xs ys | _ \<Rightarrow> False)"
| "py_eq (JDict d) b =
     (case b of
        JDict e \<Rightarrow>
          set (map fst d) = set (map fst e) \<and>
          list_all (\<lambda>(k, v). map_of d k \<noteq> Some v \<or>
                      (case map_of e k of None \<Rightarrow> False | Some w \<Rightarrow> py_eq v w)) d
      | _ \<Rightarrow> False)"

subsection \<open>Date and time values\<close>

text \<open>
  A \<open>datetime\<close> object: the calendar fields and \<open>tzinfo\<close>, which is \<open>None\<close>
  for a naive value and otherwise a fixed offset from UTC, kept in
  microseconds (a \<open>timezone(timedelta(...))\<close>).
\<close>

record datetime =
  year :: int
  month :: int
  day :: int
  hour :: int
  minute :: int
  second :: int
  microsecond :: int
  tzinfo :: "int option"

subsection \<open>The standard library\<close>

text \<open>
  \<^item> \<open>loads line\<close> is the outcome of \<open>json.loads(line)\<close>;
  \<^item> \<open>fromisoformat s\<close> is \<open>datetime.fromisoformat(s)\<close>, \<open>None\<close> when it raises
    \<open>ValueError\<close>;
  \<^item> \<open>strptime_ymd s\<close> is the date of \<open>datetime.strptime(s, "%Y-%m-%d")\<close>,
    \<open>None\<close> when it raises \<open>ValueError\<close>;
  \<^item> \<open>lower s\<close> is \<open>s.lower()\<close>;
  \<^item> \<open>format_value v\<close> is the text an f-string gives for \<open>v\<close>;
  \<^item> \<open>system_utcoffset d\<close> is the offset, in microseconds, of the system's
    local zone at the naive time \<open>d\<close> (what \<open>astimezone\<close> assumes for a naive
    value).
\<close>

record pylib =
  loads :: "ustr \<Rightarrow> decoding"
  fromisoformat :: "ustr \<Rightarrow> datetime option"
  strptime_ymd :: "ustr \<Rightarrow> (int \<times> int \<times> int) option"
  lower :: "ustr \<Rightarrow> ustr"
  format_value :: "json \<Rightarrow> ustr"
  system_utcoffset :: "datetime \<Rightarrow> int"

subsection \<open>Sessions\<close>

text \<open>The dictionaries appended to \<open>session["messages"]\<close>; \<open>text_field\<close> is
  the key \<open>"text"\<close>.\<close>

record message =
  role :: json
  text_field :: ustr
  timestamp :: json

text \<open>The dictionary \<open>session\<close> of \<open>parse_session\<close>; \<open>session_id\<close> is its key
  \<open>"id"\<close>.\<close>

record session =
  session_id :: json
  start_time :: "datetime option"
  end_time :: "datetime option"
  model :: json
  messages :: "message list"
  tools_used :: "json list"
  is_cron :: bool
  cron_name :: ustr

definition new_session :: session where
  "new_session = \<lparr>session_id = JStr [], start_time = None, end_time = None,
     model = JStr [], messages = [], tools_used = [], is_cron = False,
     cron_name = []\<rparr>"

subsection \<open>\<open>_extract_text\<close>\<close>

text \<open>The filter of the generator expression:
  \<open>isinstance(c, dict) and c.get("type") == "text"\<close>.\<close>

definition is_text_fragment :: "json \<Rightarrow> bool" where
  "is_text_fragment c =
     (case c of JDict d \<Rightarrow> map_of d (u ''type'') = Some (JStr (u ''text'')) | _ \<Rightarrow> False)"

text \<open>The items \<open>c.get("text", "")\<close> handed to \<open>" ".join\<close>, which raises
  \<open>TypeError\<close> at an item that is not a \<open>str\<close>.\<close>

fun joined_items :: "json list \<Rightarrow> error + ustr list" where
  "joined_items [] = Inr []"
| "joined_items (c # cs) =
     (if is_text_fragment c
      then (case c of
              JDict d \<Rightarrow>
                (case dget d (u ''text'') (JStr []) of
                   JStr t \<Rightarrow> (case joined_items cs of
                               Inl e \<Rightarrow> Inl e
                             | Inr ts \<Rightarrow> Inr (t # ts))
                 | _ \<Rightarrow> Inl TypeError)
            | _ \<Rightarrow> joined_items cs)
      else joined_items cs)"

definition extract_text :: "json \<Rightarrow> error + ustr" where
  "extract_text content =
     (case content of
        JStr s \<Rightarrow> Inr (strip s)
      | JList cs \<Rightarrow> (case joined_items cs of
                       Inl e \<Rightarrow> Inl e
                     | Inr ts \<Rightarrow> Inr (strip (join (u '' '') ts)))
      | _ \<Rightarrow> Inr [])"

subsection \<open>\<open>parse_session\<close>\<close>

text \<open>
  Lines 66 to 73: the timestamp bookkeeping of one record. A true value that
  is not a \<open>str\<close> has no method \<open>replace\<close>, and \<open>AttributeError\<close> is not
  caught by \<open>except ValueError\<close>.
\<close>

definition note_timestamp :: "pylib \<Rightarrow> session \<Rightarrow> json \<Rightarrow> error + session" where
  "note_timestamp py s ts_field =
     (if truthy ts_field
      then (case ts_field of
              JStr t \<Rightarrow>
                (case fromisoformat py (replace_Z t) of
                   None \<Rightarrow> Inr s
                 | Some ts \<Rightarrow>
                     Inr (s\<lparr>start_time := (if start_time s = None then Some ts
                                            else start_time s),
                            end_time := Some ts\<rparr>))
            | _ \<Rightarrow> Inl AttributeError)
      else Inr s)"

text \<open>Lines 80 to 91: a record of type \<open>"message"\<close>. \<open>msg.get\<close> raises
  \<open>AttributeError\<close> when \<open>msg\<close> is not a dictionary.\<close>

definition on_message :: "session \<Rightarrow> (ustr \<times> json) list \<Rightarrow> json \<Rightarrow> error + session" where
  "on_message s obj ts_field =
     (case dget obj (u ''message'') (JDict []) of
        JDict msg \<Rightarrow>
          (let r = dget msg (u ''role'') (JStr []) in
           case extract_text (dget msg (u ''content'') (JStr [])) of
             Inl e \<Rightarrow> Inl e
           | Inr t \<Rightarrow>
               if t \<noteq> []
               then (let s1 = (if r = JStr (u ''user'') \<and> contains cron_prefix t
                               then (let s0 = s\<lparr>is_cron := True\<rparr> in
                                     case cron_search t of
                                       Some g \<Rightarrow> s0\<lparr>cron_name := g\<rparr>
                                     | None \<Rightarrow> s0)
                               else s)
                     in Inr (s1\<lparr>messages := messages s1 @
                              [\<lparr>role = r, text_field = t, timestamp = ts_field\<rparr>]\<rparr>))
               else Inr s)
      | _ \<Rightarrow> Inl AttributeError)"

text \<open>Lines 93 to 95: a record of type \<open>"tool_use"\<close>.\<close>

definition on_tool_use :: "session \<Rightarrow> (ustr \<times> json) list \<Rightarrow> session" where
  "on_tool_use s obj =
     (let name = dget obj (u ''name'') (JStr []) in
      if truthy name \<and> \<not> list_ex (\<lambda>x. py_eq x name) (tools_used s)
      then s\<lparr>tools_used := tools_used s @ [name]\<rparr>
      else s)"

text \<open>Lines 63 to 95: the body of the loop for one decoded line. \<open>obj.get\<close>
  raises \<open>AttributeError\<close> when the decoded value is not a dictionary.\<close>

definition on_record :: "pylib \<Rightarrow> session \<Rightarrow> json \<Rightarrow> error + session" where
  "on_record py s decoded =
     (case decoded of
        JDict obj \<Rightarrow>
          (let obj_type = dget obj (u ''type'') (JStr []);
               ts_field = dget obj (u ''timestamp'') (JStr [])
           in case note_timestamp py s ts_field of
                Inl e \<Rightarrow> Inl e
              | Inr s1 \<Rightarrow>
                  if obj_type = JStr (u ''session'')
                  then Inr (s1\<lparr>session_id := dget obj (u ''id'') (JStr [])\<rparr>)
                  else if obj_type = JStr (u ''model_change'')
                  then Inr (s1\<lparr>model := dget obj (u ''modelId'') (JStr [])\<rparr>)
                  else if obj_type = JStr (u ''message'')
                  then on_message s1 obj ts_field
                  else if obj_type = JStr (u ''tool_use'')
                  then Inr (on_tool_use s1 obj)
                  else Inr s1)
      | _ \<Rightarrow> Inl AttributeError)"

text \<open>Lines 54 to 95: the loop over the lines of the file, from the session
  built so far.\<close>

fun parse_lines :: "pylib \<Rightarrow> session \<Rightarrow> ustr list \<Rightarrow> error + session" where
  "parse_lines py s [] = Inr s"
| "parse_lines py s (l # ls) =
     (let line = strip l in
      if line = [] then parse_lines py s ls
      else (case loads py line of
              JSONDecodeError \<Rightarrow> parse_lines py s ls
            | Raised e \<Rightarrow> Inl e
            | Decoded decoded \<Rightarrow>
                (case on_record py s decoded of
                   Inl e \<Rightarrow> Inl e
                 | Inr s' \<Rightarrow> parse_lines py s' ls)))"

text \<open>\<open>parse_session\<close>, on the lines of the file.\<close>

definition parse_session :: "pylib \<Rightarrow> ustr list \<Rightarrow> error + session" where
  "parse_session py file_lines = parse_lines py new_session file_lines"

subsection \<open>The records of a log\<close>

text \<open>The decoded values that the loop of \<open>parse_session\<close> processes, in file
  order: the values of the lines that are not blank and that \<open>json.loads\<close>
  decodes.\<close>

fun decoded_records :: "pylib \<Rightarrow> ustr list \<Rightarrow> json list" where
  "decoded_records py [] = []"
| "decoded_records py (l # ls) =
     (if strip l = [] then decoded_records py ls
      else (case loads py (strip l) of
              Decoded decoded \<Rightarrow> decoded # decoded_records py ls
            | _ \<Rightarrow> decoded_records py ls))"

text \<open>No line of the log makes \<open>json.loads\<close> raise an exception that the loop
  does not catch.\<close>

definition loads_quiet :: "pylib \<Rightarrow> ustr list \<Rightarrow> bool" where
  "loads_quiet py ls =
     list_all (\<lambda>l. strip l = [] \<or>
                 (case loads py (strip l) of Raised e \<Rightarrow> False | _ \<Rightarrow> True)) ls"

text \<open>The loop body applied to a list of decoded values.\<close>

fun fold_records :: "pylib \<Rightarrow> session \<Rightarrow> json list \<Rightarrow> error + session" where
  "fold_records py s [] = Inr s"
| "fold_records py s (r # rs) =
     (case on_record py s r of
        Inl e \<Rightarrow> Inl e
      | Inr s' \<Rightarrow> fold_records py s' rs)"

text \<open>The timestamp that a record contributes: its \<open>timestamp\<close> field is a
  non-empty string that \<open>fromisoformat\<close> accepts after \<open>Z\<close> is replaced.\<close>

definition record_time :: "pylib \<Rightarrow> json \<Rightarrow> datetime option" where
  "record_time py r =
     (case r of
        JDict obj \<Rightarrow>
          (case dget obj (u ''timestamp'') (JStr []) of
             JStr t \<Rightarrow> if t = [] then None else fromisoformat py (replace_Z t)
           | _ \<Rightarrow> None)
      | _ \<Rightarrow> None)"

text \<open>The flattened text of a record of type \<open>"message"\<close> whose role is
  \<open>"user"\<close> and whose text contains \<^verbatim>\<open>[cron:\<close>; \<open>None\<close> for any other
  record.\<close>

definition user_cron_text :: "json \<Rightarrow> ustr option" where
  "user_cron_text r =
     (case r of
        JDict obj \<Rightarrow>
          if dget obj (u ''type'') (JStr []) = JStr (u ''message'')
          then (case dget obj (u ''message'') (JDict []) of
                  JDict msg \<Rightarrow>
                    if dget msg (u ''role'') (JStr []) = JStr (u ''user'')
                    then (case extract_text (dget msg (u ''content'') (JStr [])) of
                            Inr t \<Rightarrow> if contains cron_prefix t then Some t else None
                          | Inl e \<Rightarrow> None)
                    else None
                | _ \<Rightarrow> None)
          else None
      | _ \<Rightarrow> None)"

text \<open>The name that a record assigns to \<open>cron_name\<close>: the group of the full
  marker in such a text, when the pattern matches.\<close>

definition record_cron_name :: "json \<Rightarrow> ustr option" where
  "record_cron_name r =
     (case user_cron_text r of None \<Rightarrow> None | Some t \<Rightarrow> cron_search t)"

text \<open>The exception with which the loop body ends on a decoded value, if it
  does: the value is not a dictionary, its \<open>timestamp\<close> is a true value
  that is not a string, or it is a message whose \<open>message\<close> field is not a
  dictionary or whose content has a text fragment that is not a string.\<close>

definition shape_error :: "json \<Rightarrow> error option" where
  "shape_error r =
     (case r of
        JDict obj \<Rightarrow>
          (let ts_field = dget obj (u ''timestamp'') (JStr [])
           in if truthy ts_field \<and> (case ts_field of JStr t \<Rightarrow> False | _ \<Rightarrow> True)
              then Some AttributeError
              else if dget obj (u ''type'') (JStr []) = JStr (u ''message'')
              then (case dget obj (u ''message'') (JDict []) of
                      JDict msg \<Rightarrow>
                        (case extract_text (dget msg (u ''content'') (JStr [])) of
                           Inl e \<Rightarrow> Some e
                         | Inr t \<Rightarrow> None)
                    | _ \<Rightarrow> Some AttributeError)
              else None)
      | _ \<Rightarrow> Some AttributeError)"

subsection \<open>Calendar arithmetic of \<open>datetime\<close>\<close>

text \<open>
  The proleptic Gregorian ordinal of a date and its inverse, as CPython's
  \<open>datetime\<close> module computes them (\<open>_ymd2ord\<close>, \<open>_ord2ymd\<close>); day 1 is
  0001-01-01 and \<open>MAXORDINAL\<close> is 9999-12-31. Python's \<open>//\<close> and \<open>%\<close> are
  \<open>div\<close> and \<open>mod\<close> on \<open>int\<close>.
\<close>

definition is_leap :: "int \<Rightarrow> bool" where
  "is_leap y = (y mod 4 = 0 \<and> (y mod 100 \<noteq> 0 \<or> y mod 400 = 0))"

definition days_before_year :: "int \<Rightarrow> int" where
  "days_before_year y = (let z = y - 1 in z * 365 + z div 4 - z div 100 + z div 400)"

definition DAYS_IN_MONTH :: "int list" where
  "DAYS_IN_MONTH = [-1, 31, 28, 31, 30, 31, 30, 31, 31, 30, 31, 30, 31]"

definition DAYS_BEFORE_MONTH :: "int list" where
  "DAYS_BEFORE_MONTH = [-1, 0, 31, 59, 90, 120, 151, 181, 212, 243, 273, 304, 334]"

definition days_before_month :: "int \<Rightarrow> int \<Rightarrow> int" where
  "days_before_month y m =
     DAYS_BEFORE_MONTH ! nat m + (if m > 2 \<and> is_leap y then 1 else 0)"

definition ymd2ord :: "int \<Rightarrow> int \<Rightarrow> int \<Rightarrow> int" where
  "ymd2ord y m d = days_before_year y + days_before_month y m + d"

definition MAXORDINAL :: int where
  "MAXORDINAL = 3652059"

definition ord2ymd :: "int \<Rightarrow> int \<times> int \<times> int" where
  "ord2ymd ordinal =
     (let n = ordinal - 1;
          n400 = n div 146097; n = n mod 146097;
          n100 = n div 36524; n = n mod 36524;
          n4 = n div 1461; n = n mod 1461;
          n1 = n div 365; n = n mod 365;
          y = n400 * 400 + 1 + n100 * 100 + n4 * 4 + n1
      in if n1 = 4 \<or> n100 = 4 then (y - 1, 12, 31)
         else (let leapyear = (n1 = 3 \<and> (n4 \<noteq> 24 \<or> n100 = 3));
                   m = (n + 50) div 32;
                   preceding = DAYS_BEFORE_MONTH ! nat m
                               + (if m > 2 \<and> leapyear then 1 else 0)
               in if preceding > n
                  then (let m' = m - 1;
                            preceding' = preceding - (DAYS_IN_MONTH ! nat m'
                                  + (if m' = 2 \<and> leapyear then 1 else 0))
                        in (y, m', n - preceding' + 1))
                  else (y, m, n - preceding + 1)))"

text \<open>Microseconds of a day, and the microseconds from the start of day 0 to
  the wall-clock reading of a \<open>datetime\<close> (its offset is not applied).\<close>

definition DAY_US :: int where
  "DAY_US = 86400000000"

definition wall_micros :: "datetime \<Rightarrow> int" where
  "wall_micros d =
     ymd2ord (year d) (month d) (day d) * DAY_US
     + ((hour d * 3600 + minute d * 60 + second d) * 1000000 + microsecond d)"

definition of_wall_micros :: "int \<Rightarrow> int option \<Rightarrow> datetime" where
  "of_wall_micros t tz =
     (let (y, m, d) = ord2ymd (t div DAY_US);
          r = t mod DAY_US;
          secs = r div 1000000
      in \<lparr>year = y, month = m, day = d,
          hour = secs div 3600, minute = (secs mod 3600) div 60, second = secs mod 60,
          microsecond = r mod 1000000, tzinfo = tz\<rparr>)"

text \<open>\<open>d + timedelta(microseconds=delta)\<close>: \<open>OverflowError\<close> when the day of
  the result is outside \<open>1 .. MAXORDINAL\<close>. The \<open>tzinfo\<close> is kept.\<close>

definition add_micros :: "datetime \<Rightarrow> int \<Rightarrow> error + datetime" where
  "add_micros d delta =
     (let t = wall_micros d + delta; days = t div DAY_US
      in if 0 < days \<and> days \<le> MAXORDINAL then Inr (of_wall_micros t (tzinfo d))
         else Inl OverflowError)"

text \<open>
  \<open>d.astimezone(tz)\<close> for a fixed-offset \<open>tz\<close>: the offset of \<open>d\<close> (the
  system's local zone when \<open>d\<close> is naive) is subtracted, the zone attached,
  and \<open>tz.fromutc\<close> adds the offset of \<open>tz\<close>. Either step can leave the range
  of \<open>datetime\<close>.
\<close>

definition astimezone :: "pylib \<Rightarrow> datetime \<Rightarrow> int \<Rightarrow> error + datetime" where
  "astimezone py d tz =
     (let myoffset = (case tzinfo d of None \<Rightarrow> system_utcoffset py d | Some off \<Rightarrow> off)
      in case add_micros d (- myoffset) of
           Inl e \<Rightarrow> Inl e
         | Inr utc \<Rightarrow> add_micros (utc\<lparr>tzinfo := Some tz\<rparr>) tz)"

text \<open>\<open>d.date()\<close>, as a triple.\<close>

definition date_of :: "datetime \<Rightarrow> int \<times> int \<times> int" where
  "date_of d = (year d, month d, day d)"

text \<open>The instant of an aware \<open>datetime\<close> on the UTC time line; comparisons of
  aware values compare these.\<close>

definition utc_micros :: "datetime \<Rightarrow> int" where
  "utc_micros d = wall_micros d - (case tzinfo d of None \<Rightarrow> 0 | Some off \<Rightarrow> off)"

text \<open>Decimal digits of a number, and a number on two digits (\<open>%H\<close>, \<open>%M\<close>).\<close>

fun show_nat :: "nat \<Rightarrow> ustr" where
  "show_nat n = (if n < 10 then [48 + n] else show_nat (n div 10) @ [48 + n mod 10])"

definition pad2 :: "int \<Rightarrow> ustr" where
  "pad2 n = (if n < 10 then [48] else []) @ show_nat (nat n)"

subsection \<open>Settings\<close>

text \<open>The module-level constants: \<open>local_tz_hours\<close> is the offset of
  \<open>LOCAL_TZ\<close> (\<open>timezone(timedelta(hours=_offset))\<close>, or 0 for
  \<open>timezone.utc\<close>), \<open>digest_dir\<close> is the text of the path \<open>DIGEST_DIR\<close>.\<close>

record settings =
  local_tz_hours :: int
  digest_dir :: ustr

definition LOCAL_TZ :: "settings \<Rightarrow> int" where
  "LOCAL_TZ cf = local_tz_hours cf * 3600000000"

subsection \<open>\<open>generate_digest\<close>\<close>

text \<open>Lines 124 to 127: the text of one message as it is rendered. The cut
  to 500 characters comes first, the removal of cron markers second.\<close>

definition render_text :: "ustr \<Rightarrow> ustr" where
  "render_text t = cron_sub (if length t > 500 then take 500 t @ [8230] else t)"

definition user_tag :: ustr where
  "user_tag = u ''**'' @ [128100] @ u '' User**: ''"

definition assistant_tag :: ustr where
  "assistant_tag = u ''**'' @ [129302] @ u '' Assistant**: ''"

text \<open>Lines 123 to 133: what one message appends to \<open>lines\<close>.\<close>

definition message_lines :: "message \<Rightarrow> ustr list" where
  "message_lines m =
     (let t = render_text (text_field m)
      in (if role m = JStr (u ''user'') then [user_tag @ t]
          else if role m = JStr (u ''assistant'') \<and> t \<noteq> [] \<and> \<not> prefix (u ''<'') t
          then [assistant_tag @ t]
          else [])
         @ [[]])"

definition transcript_lines :: "message list \<Rightarrow> ustr list" where
  "transcript_lines ms = concat (map message_lines ms)"

text \<open>Lines 112 and 113: \<open>time_str\<close>.\<close>

definition time_str :: "pylib \<Rightarrow> settings \<Rightarrow> datetime option \<Rightarrow> error + ustr" where
  "time_str py cf start =
     (case start of
        None \<Rightarrow> Inr (u ''??:??'')
      | Some d \<Rightarrow>
          (case astimezone py d (LOCAL_TZ cf) of
             Inl e \<Rightarrow> Inl e
           | Inr loc \<Rightarrow> Inr (pad2 (hour loc) @ u '':'' @ pad2 (minute loc))))"

text \<open>The strings of a list of values when all of them are \<open>str\<close>; \<open>str.join\<close>
  raises \<open>TypeError\<close> otherwise.\<close>

fun all_strs :: "json list \<Rightarrow> error + ustr list" where
  "all_strs [] = Inr []"
| "all_strs (JStr x # xs) =
     (case all_strs xs of Inl e \<Rightarrow> Inl e | Inr ys \<Rightarrow> Inr (x # ys))"
| "all_strs (_ # xs) = Inl TypeError"

text \<open>Lines 119 and 120: the line of tools, if any.\<close>

definition tools_line :: "session \<Rightarrow> error + ustr list" where
  "tools_line s =
     (if tools_used s \<noteq> []
      then (case all_strs (take 10 (tools_used s)) of
              Inl e \<Rightarrow> Inl e
            | Inr names \<Rightarrow> Inr [u ''- **Tools**: '' @ join (u '', '') names])
      else Inr [])"

text \<open>The list \<open>lines\<close> of \<open>generate_digest\<close>.\<close>

definition digest_lines :: "pylib \<Rightarrow> settings \<Rightarrow> session \<Rightarrow> error + ustr list" where
  "digest_lines py cf s =
     (case time_str py cf (start_time s) of
        Inl e \<Rightarrow> Inl e
      | Inr ts \<Rightarrow>
          (let kind = (if is_cron s then [129302] @ u '' Cron'' else [128172] @ u '' Chat'');
               title = (if is_cron s then cron_name s else u ''Session'')
           in case tools_line s of
                Inl e \<Rightarrow> Inl e
              | Inr tools \<Rightarrow>
                  Inr ([u ''### '' @ ts @ u '' '' @ kind @ u '': '' @ title,
                        u ''- **Model**: '' @ format_value py (model s)]
                       @ tools @ [[]] @ transcript_lines (messages s))))"

definition generate_digest :: "pylib \<Rightarrow> settings \<Rightarrow> session \<Rightarrow> error + ustr" where
  "generate_digest py cf s =
     (case digest_lines py cf s of
        Inl e \<Rightarrow> Inl e
      | Inr ls \<Rightarrow> Inr (join [10] ls))"

subsection \<open>The noise filter of \<open>process_date\<close>\<close>

text \<open>Line 158: \<open>is_hb\<close>.\<close>

definition is_hb :: "pylib \<Rightarrow> session \<Rightarrow> bool" where
  "is_hb py s = (is_cron s \<and> contains (u ''heartbeat'') (lower py (cron_name s)))"

text \<open>Lines 160 to 162: the condition on one message inside \<open>any(...)\<close>.\<close>

definition substantive :: "message \<Rightarrow> bool" where
  "substantive m =
     (role m = JStr (u ''assistant'') \<and> text_field m \<noteq> []
      \<and> text_field m \<notin> set [u ''HEARTBEAT_OK'', u ''NO_REPLY'', []]
      \<and> \<not> prefix (u ''<'') (text_field m))"

definition has_substance :: "session \<Rightarrow> bool" where
  "has_substance s = list_ex substantive (messages s)"

text \<open>Lines 154 to 166: a session reaches \<open>sessions.append(s)\<close> when neither
  \<open>continue\<close> is taken.\<close>

definition noise_keep :: "pylib \<Rightarrow> session \<Rightarrow> bool" where
  "noise_keep py s =
     (if length (messages s) < 2 then False
      else if is_hb py s \<and> \<not> has_substance s then False
      else True)"

subsection \<open>Selection by date\<close>

text \<open>Lines 150 to 153: a session without \<open>start_time\<close> is skipped; otherwise
  the local calendar date of its start is compared with the target date.\<close>

definition on_target_date ::
  "pylib \<Rightarrow> settings \<Rightarrow> int \<times> int \<times> int \<Rightarrow> session \<Rightarrow> error + bool" where
  "on_target_date py cf target s =
     (case start_time s of
        None \<Rightarrow> Inr False
      | Some st \<Rightarrow>
          (case astimezone py st (LOCAL_TZ cf) of
             Inl e \<Rightarrow> Inl e
           | Inr loc \<Rightarrow> Inr (date_of loc = target)))"

text \<open>Lines 150 to 168 for one parsed session: \<open>Some s\<close> when it is appended.\<close>

definition select_session ::
  "pylib \<Rightarrow> settings \<Rightarrow> int \<times> int \<times> int \<Rightarrow> session \<Rightarrow> error + session option" where
  "select_session py cf target s =
     (case on_target_date py cf target s of
        Inl e \<Rightarrow> Inl e
      | Inr False \<Rightarrow> Inr None
      | Inr True \<Rightarrow> Inr (if noise_keep py s then Some s else None))"

text \<open>A log file as \<open>process_date\<close> sees it: \<open>mtime\<close> is
  \<open>datetime.fromtimestamp(f.stat().st_mtime, tz=timezone.utc)\<close>.\<close>

record logfile =
  mtime :: datetime
  file_lines :: "ustr list"

text \<open>\<open>target\<close> with the time of day replaced (lines 139 to 141), and its
  conversion to UTC.\<close>

definition target_at :: "settings \<Rightarrow> int \<times> int \<times> int \<Rightarrow> int \<Rightarrow> int \<Rightarrow> int \<Rightarrow> datetime" where
  "target_at cf target h mi sec =
     (case target of
        (y, m, d) \<Rightarrow> \<lparr>year = y, month = m, day = d, hour = h, minute = mi, second = sec,
                      microsecond = 0, tzinfo = Some (LOCAL_TZ cf)\<rparr>)"

definition day_bounds ::
  "pylib \<Rightarrow> settings \<Rightarrow> int \<times> int \<times> int \<Rightarrow> error + datetime \<times> datetime" where
  "day_bounds py cf target =
     (case astimezone py (target_at cf target 0 0 0) 0 of
        Inl e \<Rightarrow> Inl e
      | Inr target_start_utc \<Rightarrow>
          (case astimezone py (target_at cf target 23 59 59) 0 of
             Inl e \<Rightarrow> Inl e
           | Inr target_end_utc \<Rightarrow> Inr (target_start_utc, target_end_utc)))"

text \<open>Line 146: the test on the modification time; \<open>or\<close> evaluates its
  second operand only when the first is false.\<close>

definition mtime_outside :: "datetime \<Rightarrow> datetime \<Rightarrow> datetime \<Rightarrow> error + bool" where
  "mtime_outside target_start_utc target_end_utc mt =
     (case add_micros target_start_utc (- DAY_US) of
        Inl e \<Rightarrow> Inl e
      | Inr lo \<Rightarrow>
          if utc_micros mt < utc_micros lo then Inr True
          else (case add_micros target_end_utc DAY_US of
                  Inl e \<Rightarrow> Inl e
                | Inr hi \<Rightarrow> Inr (utc_micros mt > utc_micros hi)))"

text \<open>Lines 144 to 168: the loop over the log files.\<close>

fun select_sessions ::
  "pylib \<Rightarrow> settings \<Rightarrow> int \<times> int \<times> int \<Rightarrow> datetime \<Rightarrow> datetime \<Rightarrow> logfile list
     \<Rightarrow> error + session list" where
  "select_sessions py cf target lo hi [] = Inr []"
| "select_sessions py cf target lo hi (f # fs) =
     (case mtime_outside lo hi (mtime f) of
        Inl e \<Rightarrow> Inl e
      | Inr True \<Rightarrow> select_sessions py cf target lo hi fs
      | Inr False \<Rightarrow>
          (case parse_session py (file_lines f) of
             Inl e \<Rightarrow> Inl e
           | Inr s \<Rightarrow>
               (case select_session py cf target s of
                  Inl e \<Rightarrow> Inl e
                | Inr None \<Rightarrow> select_sessions py cf target lo hi fs
                | Inr (Some kept) \<Rightarrow>
                    (case select_sessions py cf target lo hi fs of
                       Inl e \<Rightarrow> Inl e
                     | Inr rest \<Rightarrow> Inr (kept # rest)))))"

text \<open>
  Line 170: \<open>sessions.sort(key=...)\<close>. The key is \<open>start_time\<close>, or
  \<open>datetime.min\<close> in UTC. Comparing a naive with an aware \<open>datetime\<close> raises
  \<open>TypeError\<close>; aware values compare by instant, naive ones by their fields.
  The sort is stable.
\<close>

definition sort_key_of :: "session \<Rightarrow> datetime" where
  "sort_key_of s =
     (case start_time s of
        Some d \<Rightarrow> d
      | None \<Rightarrow> \<lparr>year = 1, month = 1, day = 1, hour = 0, minute = 0, second = 0,
                  microsecond = 0, tzinfo = Some 0\<rparr>)"

definition sort_sessions :: "session list \<Rightarrow> error + session list" where
  "sort_sessions ss =
     (if list_ex (\<lambda>s. tzinfo (sort_key_of s) = None) ss
         \<and> list_ex (\<lambda>s. tzinfo (sort_key_of s) \<noteq> None) ss
      then Inl TypeError
      else Inr (sort_key (\<lambda>s. utc_micros (sort_key_of s)) ss))"

subsection \<open>The digest file\<close>

text \<open>Lines 182 to 184 and 193 to 194: the union of the tools of all
  sessions, sorted. A name that is not a \<open>str\<close> ends in \<open>TypeError\<close> (from the
  set for a list or dictionary, from \<open>sorted\<close> or \<open>join\<close> otherwise).\<close>

definition all_tools_line :: "session list \<Rightarrow> error + ustr list" where
  "all_tools_line sessions =
     (let tools = concat (map tools_used sessions)
      in if tools = [] then Inr []
         else (case all_strs tools of
                 Inl e \<Rightarrow> Inl e
               | Inr names \<Rightarrow> Inr [u ''- Tools: '' @ join (u '', '') (sort (remdups names))]))"

text \<open>Lines 197 to 199.\<close>

fun rendered_blocks :: "pylib \<Rightarrow> settings \<Rightarrow> session list \<Rightarrow> error + ustr list" where
  "rendered_blocks py cf [] = Inr []"
| "rendered_blocks py cf (s # ss) =
     (case generate_digest py cf s of
        Inl e \<Rightarrow> Inl e
      | Inr block \<Rightarrow>
          (case rendered_blocks py cf ss of
             Inl e \<Rightarrow> Inl e
           | Inr rest \<Rightarrow> Inr ([block, u ''---'', []] @ rest)))"

text \<open>Lines 179 to 201: the text handed to \<open>write_text\<close>.\<close>

definition digest_document ::
  "pylib \<Rightarrow> settings \<Rightarrow> ustr \<Rightarrow> session list \<Rightarrow> error + ustr" where
  "digest_document py cf target_date sessions =
     (let total_msgs = sum_list (map (\<lambda>s. length (messages s)) sessions);
          cron_count = length (filter is_cron sessions);
          chat_count = length sessions - cron_count
      in case all_tools_line sessions of
           Inl e \<Rightarrow> Inl e
         | Inr tools \<Rightarrow>
             (case rendered_blocks py cf sessions of
                Inl e \<Rightarrow> Inl e
              | Inr blocks \<Rightarrow>
                  Inr (join [10]
                    ([u ''# Session Digest: '' @ target_date, [],
                      show_nat (length sessions) @ u '' sessions'', [],
                      u ''## '' @ [128202] @ u '' Stats'',
                      u ''- Chat: '' @ show_nat chat_count @ u '' | Cron: ''
                        @ show_nat cron_count,
                      u ''- Messages: '' @ show_nat total_msgs]
                     @ tools
                     @ [[], u ''## '' @ [128221] @ u '' Sessions'', []]
                     @ blocks))))"

subsection \<open>\<open>process_date\<close>\<close>

text \<open>
  What \<open>process_date\<close> reads and writes: the files that
  \<open>SESSIONS_DIR.glob("*.jsonl")\<close> yields, in that order; whether
  \<open>DIGEST_DIR\<close> exists; the files of \<open>DIGEST_DIR\<close> by name; and the lines
  printed so far. Failures of the operating system (permissions, a full
  disk) are not modelled.
\<close>

record world =
  session_files :: "logfile list"
  digest_dir_exists :: bool
  digest_files :: "ustr \<rightharpoonup> ustr"
  stdout :: "ustr list"

text \<open>Lines 138 to 170: the sorted list \<open>sessions\<close>.\<close>

definition selected_sessions ::
  "pylib \<Rightarrow> settings \<Rightarrow> world \<Rightarrow> int \<times> int \<times> int \<Rightarrow> error + session list" where
  "selected_sessions py cf w target =
     (case day_bounds py cf target of
        Inl e \<Rightarrow> Inl e
      | Inr (lo, hi) \<Rightarrow>
          (case select_sessions py cf target lo hi (session_files w) of
             Inl e \<Rightarrow> Inl e
           | Inr found \<Rightarrow> sort_sessions found))"

text \<open>\<open>process_date\<close>: the world it leaves, and the exception that escapes,
  if any. \<open>mkdir\<close> comes before the document is built, so an exception raised
  while building it leaves the directory created.\<close>

definition process_date ::
  "pylib \<Rightarrow> settings \<Rightarrow> world \<Rightarrow> ustr \<Rightarrow> world \<times> error option" where
  "process_date py cf w target_date =
     (case strptime_ymd py target_date of
        None \<Rightarrow> (w, Some ValueError)
      | Some target \<Rightarrow>
          (case selected_sessions py cf w target of
             Inl e \<Rightarrow> (w, Some e)
           | Inr sessions \<Rightarrow>
               if sessions = []
               then (w\<lparr>stdout := stdout w @
                        [[128237] @ u '' '' @ target_date @ u '': No sessions to digest'']\<rparr>,
                     None)
               else (let w1 = w\<lparr>digest_dir_exists := True\<rparr>;
                         file_name = target_date @ u ''.md''
                     in case digest_document py cf target_date sessions of
                          Inl e \<Rightarrow> (w1, Some e)
                        | Inr doc \<Rightarrow>
                            (w1\<lparr>digest_files := (digest_files w1)(file_name \<mapsto> doc),
                                stdout := stdout w1 @
                                  [[9989] @ u '' '' @ target_date @ u '': Digested ''
                                   @ show_nat (length sessions) @ u '' sessions ''
                                   @ [8594] @ u '' '' @ digest_dir cf @ u ''/''
                                   @ file_name]\<rparr>,
                             None))))"

subsection \<open>Notions used in the statements\<close>



text \<open>The timestamps and the cron names that the records of a log
  contribute, in file order.\<close>

definition record_times :: "pylib \<Rightarrow> ustr list \<Rightarrow> datetime list" where
  "record_times py ls = List.map_filter (record_time py) (decoded_records py ls)"

definition cron_names :: "pylib \<Rightarrow> ustr list \<Rightarrow> ustr list" where
  "cron_names py ls = List.map_filter record_cron_name (decoded_records py ls)"

subsection \<open>Sample logs\<close>

text \<open>Lines of a log, each with the value that \<open>json.loads\<close> returns for it.\<close>

definition line_cron_hello :: ustr where
  \<open>line_cron_hello = u ''{"type": "message", "message": {"role": "user", "content": "[cron:job1 Daily Report] hello"}}''\<close>

definition rec_cron_hello :: json where
  "rec_cron_hello =
     JDict [(u ''type'', JStr (u ''message'')),
            (u ''message'', JDict [(u ''role'', JStr (u ''user'')),
                                   (u ''content'', JStr (u ''[cron:job1 Daily Report] hello''))])]"

definition line_cron_first :: ustr where
  \<open>line_cron_first = u ''{"type": "message", "message": {"role": "user", "content": "[cron:a First] x"}}''\<close>

definition rec_cron_first :: json where
  "rec_cron_first =
     JDict [(u ''type'', JStr (u ''message'')),
            (u ''message'', JDict [(u ''role'', JStr (u ''user'')),
                                   (u ''content'', JStr (u ''[cron:a First] x''))])]"

definition line_cron_second :: ustr where
  \<open>line_cron_second = u ''{"type": "message", "message": {"role": "user", "content": "[cron:b Second] y"}}''\<close>

definition rec_cron_second :: json where
  "rec_cron_second =
     JDict [(u ''type'', JStr (u ''message'')),
            (u ''message'', JDict [(u ''role'', JStr (u ''user'')),
                                   (u ''content'', JStr (u ''[cron:b Second] y''))])]"

definition line_cron_partial :: ustr where
  \<open>line_cron_partial = u ''{"type": "message", "message": {"role": "user", "content": "[cron: pending"}}''\<close>

definition rec_cron_partial :: json where
  "rec_cron_partial =
     JDict [(u ''type'', JStr (u ''message'')),
            (u ''message'', JDict [(u ''role'', JStr (u ''user'')),
                                   (u ''content'', JStr (u ''[cron: pending''))])]"

definition line_array :: ustr where
  "line_array = u ''[1, 2]''"

definition rec_array :: json where
  "rec_array = JList [JInt 1, JInt 2]"

definition line_numeric_timestamp :: ustr where
  \<open>line_numeric_timestamp = u ''{"type": "session", "id": "s1", "timestamp": 1710434400000}''\<close>

definition rec_numeric_timestamp :: json where
  "rec_numeric_timestamp =
     JDict [(u ''type'', JStr (u ''session'')), (u ''id'', JStr (u ''s1'')),
            (u ''timestamp'', JInt 1710434400000)]"

definition line_text_message :: ustr where
  \<open>line_text_message = u ''{"type": "message", "message": "hello"}''\<close>

definition rec_text_message :: json where
  "rec_text_message =
     JDict [(u ''type'', JStr (u ''message'')), (u ''message'', JStr (u ''hello''))]"

definition line_session_start :: ustr where
  \<open>line_session_start = u ''{"type": "session", "id": "s1", "timestamp": "2024-03-14T16:30:00Z"}''\<close>

definition rec_session_start :: json where
  "rec_session_start =
     JDict [(u ''type'', JStr (u ''session'')), (u ''id'', JStr (u ''s1'')),
            (u ''timestamp'', JStr (u ''2024-03-14T16:30:00Z''))]"

definition line_early_start :: ustr where
  \<open>line_early_start = u ''{"type": "session", "id": "s0", "timestamp": "2024-03-14T15:59:59Z"}''\<close>

definition rec_early_start :: json where
  "rec_early_start =
     JDict [(u ''type'', JStr (u ''session'')), (u ''id'', JStr (u ''s0'')),
            (u ''timestamp'', JStr (u ''2024-03-14T15:59:59Z''))]"

definition line_reply :: ustr where
  \<open>line_reply = u ''{"type": "message", "timestamp": "2024-03-14T16:31:00Z", "message": {"role": "assistant", "content": [{"type": "text", "text": "ok"}]}}''\<close>

definition rec_reply :: json where
  "rec_reply =
     JDict [(u ''type'', JStr (u ''message'')),
            (u ''timestamp'', JStr (u ''2024-03-14T16:31:00Z'')),
            (u ''message'',
             JDict [(u ''role'', JStr (u ''assistant'')),
                    (u ''content'',
                     JList [JDict [(u ''type'', JStr (u ''text'')),
                                   (u ''text'', JStr (u ''ok''))]])])]"

text \<open>The two instants of the selection example, and one minute after the
  first.\<close>

definition utc_1630 :: datetime where
  "utc_1630 = \<lparr>year = 2024, month = 3, day = 14, hour = 16, minute = 30, second = 0,
                microsecond = 0, tzinfo = Some 0\<rparr>"

definition utc_1631 :: datetime where
  "utc_1631 = \<lparr>year = 2024, month = 3, day = 14, hour = 16, minute = 31, second = 0,
                microsecond = 0, tzinfo = Some 0\<rparr>"

definition utc_155959 :: datetime where
  "utc_155959 = \<lparr>year = 2024, month = 3, day = 14, hour = 15, minute = 59, second = 59,
                  microsecond = 0, tzinfo = Some 0\<rparr>"

text \<open>A standard library that knows the sample lines and timestamps and
  rejects everything else; \<open>lower\<close> is exact on ASCII text.\<close>

definition sample_values :: "(ustr \<times> json) list" where
  "sample_values =
     [(line_cron_hello, rec_cron_hello), (line_cron_first, rec_cron_first),
      (line_cron_second, rec_cron_second), (line_cron_partial, rec_cron_partial),
      (line_array, rec_array), (line_numeric_timestamp, rec_numeric_timestamp),
      (line_text_message, rec_text_message),
      (line_session_start, rec_session_start), (line_reply, rec_reply),
      (line_early_start, rec_early_start)]"

definition sample_loads :: "ustr \<Rightarrow> decoding" where
  "sample_loads l =
     (case map_of sample_values l of Some v \<Rightarrow> Decoded v | None \<Rightarrow> JSONDecodeError)"

definition sample_fromisoformat :: "ustr \<Rightarrow> datetime option" where
  "sample_fromisoformat =
     map_of [(u ''2024-03-14T16:30:00+00:00'', utc_1630),
             (u ''2024-03-14T16:31:00+00:00'', utc_1631),
             (u ''2024-03-14T15:59:59+00:00'', utc_155959)]"

definition sample_strptime :: "ustr \<Rightarrow> (int \<times> int \<times> int) option" where
  "sample_strptime = map_of [(u ''2024-03-15'', (2024, 3, 15))]"

definition ascii_lower :: "ustr \<Rightarrow> ustr" where
  "ascii_lower = map (\<lambda>c. if 65 \<le> c \<and> c \<le> 90 then c + 32 else c)"

definition sample_format :: "json \<Rightarrow> ustr" where
  "sample_format v = (case v of JStr t \<Rightarrow> t | _ \<Rightarrow> [])"

definition sample_py :: pylib where
  "sample_py =
     \<lparr>loads = sample_loads, fromisoformat = sample_fromisoformat,
      strptime_ymd = sample_strptime, lower = ascii_lower,
      format_value = sample_format, system_utcoffset = (\<lambda>d. 0)\<rparr>"

definition taipei :: settings where
  "taipei = \<lparr>local_tz_hours = 8, digest_dir = u ''memory/sessions-digest''\<rparr>"

text \<open>A heartbeat session whose only assistant message is the sentinel, and
  a further assistant message with real content.\<close>

definition heartbeat_session :: session where
  "heartbeat_session =
     \<lparr>session_id = JStr (u ''hb''), start_time = Some utc_1630, end_time = Some utc_1631,
      model = JStr (u ''m1''),
      messages = [\<lparr>role = JStr (u ''user''),
                    text_field = u ''[cron:hb1 Heartbeat Check] ping'',
                    timestamp = JStr []\<rparr>,
                  \<lparr>role = JStr (u ''assistant''), text_field = u ''HEARTBEAT_OK'',
                    timestamp = JStr []\<rparr>],
      tools_used = [], is_cron = True, cron_name = u ''Heartbeat Check''\<rparr>"

definition disk_message :: message where
  "disk_message = \<lparr>role = JStr (u ''assistant''), text_field = u ''Disk usage at 92%'',
                    timestamp = JStr []\<rparr>"




text \<open>Two sessions with two assistant messages each: one starts at
  2024-03-14T16:30:00Z, the other at 2024-03-14T15:59:59Z.\<close>

definition reply_message :: message where
  "reply_message = \<lparr>role = JStr (u ''assistant''), text_field = u ''ok'',
                     timestamp = JStr (u ''2024-03-14T16:31:00Z'')\<rparr>"

definition late_session :: session where
  "late_session =
     \<lparr>session_id = JStr (u ''s1''), start_time = Some utc_1630, end_time = Some utc_1631,
      model = JStr [], messages = [reply_message, reply_message], tools_used = [],
      is_cron = False, cron_name = []\<rparr>"

definition early_session :: session where
  "early_session =
     \<lparr>session_id = JStr (u ''s0''), start_time = Some utc_155959,
      end_time = Some utc_1631,
      model = JStr [], messages = [reply_message, reply_message], tools_used = [],
      is_cron = False, cron_name = []\<rparr>"

text \<open>The session of the log of \<open>sample_world\<close> below: it starts at
  2024-03-14T16:30:00Z and has one message.\<close>

definition short_session :: session where
  "short_session =
     \<lparr>session_id = JStr (u ''s1''), start_time = Some utc_1630, end_time = Some utc_1631,
      model = JStr [], messages = [reply_message], tools_used = [],
      is_cron = False, cron_name = []\<rparr>"

text \<open>The bounds of the local day 2024-03-15 at eight hours ahead of UTC, in
  UTC.\<close>

definition day_start_utc :: datetime where
  "day_start_utc = \<lparr>year = 2024, month = 3, day = 14, hour = 16, minute = 0, second = 0,
                     microsecond = 0, tzinfo = Some 0\<rparr>"

definition day_end_utc :: datetime where
  "day_end_utc = \<lparr>year = 2024, month = 3, day = 15, hour = 15, minute = 59, second = 59,
                   microsecond = 0, tzinfo = Some 0\<rparr>"

text \<open>A world with the logs of these two sessions.\<close>

definition early_log :: logfile where
  "early_log = \<lparr>mtime = utc_1631, file_lines = [line_early_start, line_reply, line_reply]\<rparr>"

definition late_log :: logfile where
  "late_log = \<lparr>mtime = utc_1631, file_lines = [line_session_start, line_reply, line_reply]\<rparr>"

definition two_log_world :: world where
  "two_log_world =
     \<lparr>session_files = [early_log, late_log],
      digest_dir_exists = False, digest_files = Map.empty, stdout = []\<rparr>"

text \<open>A world with one log (a session record and one assistant message) and
  no digest yet.\<close>

definition sample_world :: world where
  "sample_world =
     \<lparr>session_files = [\<lparr>mtime = utc_1631,
                         file_lines = [line_session_start, line_reply]\<rparr>],
      digest_dir_exists = False, digest_files = Map.empty, stdout = []\<rparr>"

section \<open>Properties\<close>

subsection \<open>Strings\<close>

lemma u_inject [simp]: "u a = u b \<longleftrightarrow> a = b"
proof -
  have "inj (of_char :: char \<Rightarrow> nat)"
    by (rule injI) simp
  then have "inj (map (of_char :: char \<Rightarrow> nat))"
    by simp
  then show ?thesis
    unfolding u_def by (auto dest: injD)
qed

lemma u_Nil [simp]: "u [] = []" "u s = [] \<longleftrightarrow> s = []" "[] = u s \<longleftrightarrow> s = []"
  by (auto simp: u_def)

lemma cron_prefix_simps [simp]: "\<not> contains cron_prefix []" "cron_prefix \<noteq> []"
  by (simp_all add: cron_prefix_def)

subsection \<open>The loop of \<open>parse_session\<close> as a fold over the decoded records\<close>

lemma loads_quiet_simps:
  "loads_quiet py [] \<longleftrightarrow> True"
  "loads_quiet py (l # ls) \<longleftrightarrow>
     (strip l = [] \<or> (case loads py (strip l) of Raised e \<Rightarrow> False | _ \<Rightarrow> True))
     \<and> loads_quiet py ls"
  by (simp_all add: loads_quiet_def)

lemma parse_lines_fold:
  "loads_quiet py ls \<Longrightarrow> parse_lines py s ls = fold_records py s (decoded_records py ls)"
  by (induction ls arbitrary: s)
    (auto simp: Let_def loads_quiet_simps split: decoding.splits sum.splits)

lemma parse_lines_quiet:
  "parse_lines py s ls = Inr s' \<Longrightarrow> loads_quiet py ls"
proof (induction ls arbitrary: s)
  case Nil
  then show ?case by (simp add: loads_quiet_simps)
next
  case (Cons l ls)
  show ?case
  proof (cases "strip l = []")
    case True
    then have "parse_lines py s ls = Inr s'"
      using Cons.prems by simp
    then show ?thesis
      using Cons.IH True by (simp add: loads_quiet_simps)
  next
    case False
    show ?thesis
    proof (cases "loads py (strip l)")
      case (Decoded d)
      then obtain s1 where "parse_lines py s1 ls = Inr s'"
        using Cons.prems False by (auto simp: Let_def split: sum.splits)
      then show ?thesis
        using Cons.IH Decoded by (simp add: loads_quiet_simps)
    next
      case JSONDecodeError
      then have "parse_lines py s ls = Inr s'"
        using Cons.prems False by (simp add: Let_def)
      then show ?thesis
        using Cons.IH JSONDecodeError by (simp add: loads_quiet_simps)
    next
      case (Raised e)
      then show ?thesis
        using Cons.prems False by (simp add: Let_def)
    qed
  qed
qed

lemma parse_lines_returned:
  "parse_lines py s ls = Inr s' \<Longrightarrow> fold_records py s (decoded_records py ls) = Inr s'"
  using parse_lines_fold parse_lines_quiet by metis

lemma decoded_records_append:
  "decoded_records py (xs @ ys) = decoded_records py xs @ decoded_records py ys"
  by (induction xs) (auto split: decoding.splits)

lemma loads_quiet_append:
  "loads_quiet py (xs @ ys) \<longleftrightarrow> loads_quiet py xs \<and> loads_quiet py ys"
  by (simp add: loads_quiet_def)

lemma fold_records_append:
  "fold_records py s (xs @ ys) =
     (case fold_records py s xs of Inl e \<Rightarrow> Inl e | Inr s' \<Rightarrow> fold_records py s' ys)"
  by (induction xs arbitrary: s) (auto split: sum.splits)

lemma parse_session_append:
  assumes "parse_session py (xs @ ys) = Inr s2"
  obtains s1 where "parse_session py xs = Inr s1"
    and "fold_records py s1 (decoded_records py ys) = Inr s2"
proof -
  have q: "loads_quiet py xs"
    using assms parse_lines_quiet[of py new_session "xs @ ys" s2]
    by (simp add: parse_session_def loads_quiet_append)
  have "fold_records py new_session (decoded_records py xs @ decoded_records py ys) = Inr s2"
    using assms parse_lines_returned[of py new_session "xs @ ys" s2]
    by (simp add: parse_session_def decoded_records_append)
  then obtain s1 where 1: "fold_records py new_session (decoded_records py xs) = Inr s1"
    and 2: "fold_records py s1 (decoded_records py ys) = Inr s2"
    by (auto simp: fold_records_append split: sum.splits)
  have "parse_session py xs = Inr s1"
    using 1 q by (simp add: parse_session_def parse_lines_fold)
  then show ?thesis
    using 2 that by blast
qed

subsection \<open>What one record does to the fields\<close>

lemma note_timestamp_keeps:
  "note_timestamp py s f = Inr s' \<Longrightarrow>
     is_cron s' = is_cron s \<and> cron_name s' = cron_name s \<and> messages s' = messages s"
  by (auto simp: note_timestamp_def split: if_splits json.splits option.splits)

lemma on_record_is_cron:
  "on_record py s r = Inr s' \<Longrightarrow> is_cron s' = (is_cron s \<or> user_cron_text r \<noteq> None)"
  by (auto simp: on_record_def on_message_def on_tool_use_def user_cron_text_def Let_def
      dest!: note_timestamp_keeps
      split: json.splits sum.splits if_splits option.splits)

lemma on_record_cron_name:
  "on_record py s r = Inr s' \<Longrightarrow>
     cron_name s' = (case record_cron_name r of None \<Rightarrow> cron_name s | Some g \<Rightarrow> g)"
  by (auto simp: on_record_def on_message_def on_tool_use_def user_cron_text_def
      record_cron_name_def Let_def
      dest!: note_timestamp_keeps
      split: json.splits sum.splits if_splits option.splits)

lemma note_timestamp_times:
  "note_timestamp py s (dget obj (u ''timestamp'') (JStr [])) = Inr s' \<Longrightarrow>
     start_time s' = (case record_time py (JDict obj) of
                        None \<Rightarrow> start_time s
                      | Some ts \<Rightarrow> if start_time s = None then Some ts else start_time s) \<and>
     end_time s' = (case record_time py (JDict obj) of
                      None \<Rightarrow> end_time s
                    | Some ts \<Rightarrow> Some ts)"
  by (auto simp: note_timestamp_def record_time_def split: if_splits json.splits option.splits)

lemma on_message_times:
  "on_message s obj f = Inr s' \<Longrightarrow> start_time s' = start_time s \<and> end_time s' = end_time s"
  by (auto simp: on_message_def Let_def split: json.splits sum.splits if_splits option.splits)

lemma on_record_times:
  assumes "on_record py s r = Inr s'"
  shows "start_time s' = (case record_time py r of
                            None \<Rightarrow> start_time s
                          | Some ts \<Rightarrow> if start_time s = None then Some ts else start_time s)"
    and "end_time s' = (case record_time py r of None \<Rightarrow> end_time s | Some ts \<Rightarrow> Some ts)"
proof -
  obtain obj where r: "r = JDict obj"
    using assms by (cases r) (auto simp: on_record_def)
  then obtain s1 where n: "note_timestamp py s (dget obj (u ''timestamp'') (JStr [])) = Inr s1"
    using assms by (auto simp: on_record_def Let_def split: sum.splits)
  have "start_time s' = start_time s1 \<and> end_time s' = end_time s1"
    using assms r n
    by (auto simp: on_record_def Let_def on_tool_use_def dest: on_message_times
        split: if_splits)
  then show "start_time s' = (case record_time py r of
                            None \<Rightarrow> start_time s
                          | Some ts \<Rightarrow> if start_time s = None then Some ts else start_time s)"
    and "end_time s' = (case record_time py r of None \<Rightarrow> end_time s | Some ts \<Rightarrow> Some ts)"
    using note_timestamp_times[OF n] r by simp_all
qed

subsection \<open>When the loop raises\<close>

lemma note_timestamp_result:
  "note_timestamp py s f =
     (if truthy f \<and> (case f of JStr t \<Rightarrow> False | _ \<Rightarrow> True) then Inl AttributeError
      else Inr (case f of
                  JStr t \<Rightarrow> (if t = [] then s
                             else case fromisoformat py (replace_Z t) of
                                    None \<Rightarrow> s
                                  | Some ts \<Rightarrow>
                                      s\<lparr>start_time := (if start_time s = None then Some ts
                                                           else start_time s),
                                        end_time := Some ts\<rparr>)
                | _ \<Rightarrow> s))"
  by (cases f) (auto simp: note_timestamp_def split: option.splits)

lemma on_record_error:
  "(case on_record py s r of Inl e \<Rightarrow> Some e | Inr s' \<Rightarrow> None) = shape_error r"
  by (cases r)
    (auto simp: on_record_def shape_error_def on_message_def Let_def note_timestamp_result
      split: json.splits sum.splits)

lemma fold_records_returns:
  "(\<exists>s'. fold_records py s rs = Inr s') \<longleftrightarrow> list_all (\<lambda>r. shape_error r = None) rs"
proof (induction rs arbitrary: s)
  case Nil
  then show ?case by simp
next
  case (Cons r rs)
  show ?case
    using on_record_error[of py s r] Cons.IH
    by (auto split: sum.splits)
qed

lemma parse_session_returns_iff:
  "(\<exists>s. parse_session py ls = Inr s)
     \<longleftrightarrow> loads_quiet py ls
         \<and> list_all (\<lambda>r. shape_error r = None) (decoded_records py ls)"
proof
  assume "\<exists>s. parse_session py ls = Inr s"
  then obtain s where p: "parse_lines py new_session ls = Inr s"
    by (auto simp: parse_session_def)
  then have "loads_quiet py ls"
    by (rule parse_lines_quiet)
  moreover have "list_all (\<lambda>r. shape_error r = None) (decoded_records py ls)"
    using parse_lines_returned[OF p] fold_records_returns by blast
  ultimately show "loads_quiet py ls
      \<and> list_all (\<lambda>r. shape_error r = None) (decoded_records py ls)"
    by simp
next
  assume "loads_quiet py ls
      \<and> list_all (\<lambda>r. shape_error r = None) (decoded_records py ls)"
  then show "\<exists>s. parse_session py ls = Inr s"
    by (simp add: parse_session_def parse_lines_fold fold_records_returns)
qed

subsection \<open>What the whole loop does to the fields\<close>

lemma fold_records_is_cron:
  "fold_records py s rs = Inr s' \<Longrightarrow>
     is_cron s' = (is_cron s \<or> list_ex (\<lambda>r. user_cron_text r \<noteq> None) rs)"
proof (induction rs arbitrary: s)
  case Nil
  then show ?case by simp
next
  case (Cons r rs)
  then obtain s1 where 1: "on_record py s r = Inr s1" and 2: "fold_records py s1 rs = Inr s'"
    by (auto split: sum.splits)
  show ?case
    using Cons.IH[OF 2] on_record_is_cron[OF 1] by auto
qed

lemma fold_records_cron_name:
  "fold_records py s rs = Inr s' \<Longrightarrow>
     cron_name s' = (if List.map_filter record_cron_name rs = [] then cron_name s
                     else last (List.map_filter record_cron_name rs))"
proof (induction rs arbitrary: s)
  case Nil
  then show ?case by (simp add: List.map_filter_simps)
next
  case (Cons r rs)
  then obtain s1 where 1: "on_record py s r = Inr s1" and 2: "fold_records py s1 rs = Inr s'"
    by (auto split: sum.splits)
  show ?case
    using Cons.IH[OF 2] on_record_cron_name[OF 1]
    by (auto simp: List.map_filter_simps split: option.splits)
qed

lemma fold_records_start_time:
  "fold_records py s rs = Inr s' \<Longrightarrow>
     start_time s' = (if start_time s \<noteq> None then start_time s
                      else if List.map_filter (record_time py) rs = [] then None
                      else Some (hd (List.map_filter (record_time py) rs)))"
proof (induction rs arbitrary: s)
  case Nil
  then show ?case by (simp add: List.map_filter_simps)
next
  case (Cons r rs)
  then obtain s1 where 1: "on_record py s r = Inr s1" and 2: "fold_records py s1 rs = Inr s'"
    by (auto split: sum.splits)
  show ?case
    using Cons.IH[OF 2] on_record_times(1)[OF 1]
    by (auto simp: List.map_filter_simps split: option.splits)
qed

lemma fold_records_end_time:
  "fold_records py s rs = Inr s' \<Longrightarrow>
     end_time s' = (if List.map_filter (record_time py) rs = [] then end_time s
                    else Some (last (List.map_filter (record_time py) rs)))"
proof (induction rs arbitrary: s)
  case Nil
  then show ?case by (simp add: List.map_filter_simps)
next
  case (Cons r rs)
  then obtain s1 where 1: "on_record py s r = Inr s1" and 2: "fold_records py s1 rs = Inr s'"
    by (auto split: sum.splits)
  show ?case
    using Cons.IH[OF 2] on_record_times(2)[OF 1]
    by (auto simp: List.map_filter_simps split: option.splits)
qed

subsection \<open>Evaluating the sample logs\<close>

lemma strip_id:
  assumes "xs \<noteq> []" and "\<not> isspace (hd xs)" and "\<not> isspace (last xs)"
  shows "strip xs = xs"
proof -
  have 1: "dropWhile isspace xs = xs"
    using assms by (cases xs) auto
  have "rev xs \<noteq> []" and "\<not> isspace (hd (rev xs))"
    using assms by (auto simp: hd_rev)
  then have 2: "dropWhile isspace (rev xs) = rev xs"
    by (cases "rev xs") auto
  show ?thesis
    by (simp add: strip_def 1 2)
qed

lemma hd_u: "hd (u (c # cs)) = of_char c"
  by (simp add: u_def)

lemma last_u: "s \<noteq> [] \<Longrightarrow> last (u s) = of_char (last s)"
  by (simp add: u_def last_map)

lemmas line_defs =
  line_cron_hello_def line_cron_first_def line_cron_second_def line_cron_partial_def
  line_array_def line_numeric_timestamp_def line_text_message_def
  line_session_start_def line_reply_def line_early_start_def

lemma strip_lines:
  "strip line_cron_hello = line_cron_hello"
  "strip line_cron_first = line_cron_first"
  "strip line_cron_second = line_cron_second"
  "strip line_cron_partial = line_cron_partial"
  "strip line_array = line_array"
  "strip line_numeric_timestamp = line_numeric_timestamp"
  "strip line_text_message = line_text_message"
  "strip line_session_start = line_session_start"
  "strip line_reply = line_reply"
  "strip line_early_start = line_early_start"
  by (simp_all add: strip_id hd_u last_u isspace_def line_defs)

lemma lines_nonempty:
  "line_cron_hello \<noteq> []" "line_cron_first \<noteq> []" "line_cron_second \<noteq> []"
  "line_cron_partial \<noteq> []" "line_array \<noteq> []" "line_numeric_timestamp \<noteq> []"
  "line_text_message \<noteq> []" "line_session_start \<noteq> []" "line_reply \<noteq> []"
  "line_early_start \<noteq> []"
  by (simp_all add: line_defs)

lemma sample_loads_lines:
  "sample_loads line_cron_hello = Decoded rec_cron_hello"
  "sample_loads line_cron_first = Decoded rec_cron_first"
  "sample_loads line_cron_second = Decoded rec_cron_second"
  "sample_loads line_cron_partial = Decoded rec_cron_partial"
  "sample_loads line_array = Decoded rec_array"
  "sample_loads line_numeric_timestamp = Decoded rec_numeric_timestamp"
  "sample_loads line_text_message = Decoded rec_text_message"
  "sample_loads line_session_start = Decoded rec_session_start"
  "sample_loads line_reply = Decoded rec_reply"
  "sample_loads line_early_start = Decoded rec_early_start"
  by (simp_all add: sample_loads_def sample_values_def line_defs)

lemma sample_py_fields:
  "loads sample_py = sample_loads"
  "fromisoformat sample_py = sample_fromisoformat"
  "strptime_ymd sample_py = sample_strptime"
  "lower sample_py = ascii_lower"
  "format_value sample_py = sample_format"
  by (simp_all add: sample_py_def)

lemmas eval_record =
  on_record_def dget_def note_timestamp_def on_message_def on_tool_use_def
  extract_text_def is_text_fragment_def strip_id hd_u last_u isspace_def Let_def

lemmas eval_marker = u_def match_at_def cron_prefix_def spaces_then_name_def isspace_def

lemma marker_texts:
  "cron_search (u ''[cron:job1 Daily Report] hello'') = Some (u ''Daily Report'')"
  "contains cron_prefix (u ''[cron:job1 Daily Report] hello'')"
  "cron_search (u ''[cron:a First] x'') = Some (u ''First'')"
  "contains cron_prefix (u ''[cron:a First] x'')"
  "cron_search (u ''[cron:b Second] y'') = Some (u ''Second'')"
  "contains cron_prefix (u ''[cron:b Second] y'')"
  "cron_search (u ''[cron: pending'') = None"
  "contains cron_prefix (u ''[cron: pending'')"
  by (simp_all add: eval_marker)

lemma on_record_cron_hello:
  "on_record py s rec_cron_hello =
     Inr (s\<lparr>is_cron := True, cron_name := u ''Daily Report'',
            messages := messages s @
              [\<lparr>role = JStr (u ''user''),
                text_field = u ''[cron:job1 Daily Report] hello'',
                timestamp = JStr []\<rparr>]\<rparr>)"
  by (simp add: rec_cron_hello_def eval_record marker_texts)

lemma on_record_cron_first:
  "on_record py s rec_cron_first =
     Inr (s\<lparr>is_cron := True, cron_name := u ''First'',
            messages := messages s @
              [\<lparr>role = JStr (u ''user''), text_field = u ''[cron:a First] x'',
                timestamp = JStr []\<rparr>]\<rparr>)"
  by (simp add: rec_cron_first_def eval_record marker_texts)

lemma on_record_cron_second:
  "on_record py s rec_cron_second =
     Inr (s\<lparr>is_cron := True, cron_name := u ''Second'',
            messages := messages s @
              [\<lparr>role = JStr (u ''user''), text_field = u ''[cron:b Second] y'',
                timestamp = JStr []\<rparr>]\<rparr>)"
  by (simp add: rec_cron_second_def eval_record marker_texts)

lemma on_record_cron_partial:
  "on_record py s rec_cron_partial =
     Inr (s\<lparr>is_cron := True,
            messages := messages s @
              [\<lparr>role = JStr (u ''user''), text_field = u ''[cron: pending'',
                timestamp = JStr []\<rparr>]\<rparr>)"
  by (simp add: rec_cron_partial_def eval_record marker_texts)

lemma on_record_array: "on_record py s rec_array = Inl AttributeError"
  by (simp add: rec_array_def on_record_def)

lemma on_record_numeric_timestamp:
  "on_record py s rec_numeric_timestamp = Inl AttributeError"
  by (simp add: rec_numeric_timestamp_def eval_record)

lemma on_record_text_message: "on_record py s rec_text_message = Inl AttributeError"
  by (simp add: rec_text_message_def eval_record)

lemma on_record_session_start:
  "on_record sample_py s rec_session_start =
     Inr (s\<lparr>start_time := (if start_time s = None then Some utc_1630 else start_time s),
            end_time := Some utc_1630, session_id := JStr (u ''s1'')\<rparr>)"
  by (simp add: rec_session_start_def eval_record sample_py_def sample_fromisoformat_def
      replace_Z_def u_def)

lemma on_record_early_start:
  "on_record sample_py s rec_early_start =
     Inr (s\<lparr>start_time := (if start_time s = None then Some utc_155959 else start_time s),
            end_time := Some utc_155959, session_id := JStr (u ''s0'')\<rparr>)"
  by (simp add: rec_early_start_def eval_record sample_py_def sample_fromisoformat_def
      replace_Z_def u_def)

lemma on_record_reply:
  "on_record sample_py s rec_reply =
     Inr (s\<lparr>start_time := (if start_time s = None then Some utc_1631 else start_time s),
            end_time := Some utc_1631,
            messages := messages s @
              [\<lparr>role = JStr (u ''assistant''), text_field = u ''ok'',
                timestamp = JStr (u ''2024-03-14T16:31:00Z'')\<rparr>]\<rparr>)"
  by (simp add: rec_reply_def eval_record sample_py_def sample_fromisoformat_def
      replace_Z_def u_def cron_prefix_def)

lemmas eval_parse =
  parse_session_def strip_lines lines_nonempty sample_py_fields sample_loads_lines

lemma record_cron_name_samples:
  "record_cron_name rec_cron_first = Some (u ''First'')"
  "record_cron_name rec_cron_second = Some (u ''Second'')"
  "record_cron_name rec_cron_partial = None"
  "user_cron_text rec_cron_partial = Some (u ''[cron: pending'')"
  by (simp_all add: record_cron_name_def user_cron_text_def rec_cron_first_def
      rec_cron_second_def rec_cron_partial_def dget_def extract_text_def strip_id hd_u
      last_u isspace_def marker_texts)

section \<open>The claims\<close>

subsection \<open>C1: \<open>parse_session\<close> on records of unexpected shape\<close>

text \<open>
  C1 says that \<open>parse_session\<close> returns a session for every log, also when a
  line is valid JSON but not an object or when \<open>timestamp\<close> or \<open>message\<close> has
  an unexpected type. The loop guards against lines that are not JSON and
  against timestamps that are not ISO dates, but not against these shapes:
  a line holding the array \<^verbatim>\<open>[1, 2]\<close>, a record whose \<open>timestamp\<close> is the
  number 1710434400000, and a record whose \<open>message\<close> is a string each end
  the parse with \<open>AttributeError\<close>. (By \<open>parse_session_returns_iff\<close> the
  parse returns exactly when no decoded line has such a shape and
  \<open>json.loads\<close> raises nothing but \<open>JSONDecodeError\<close>.)
\<close>

theorem parse_session_raises_on_unexpected_shapes:
  "parse_session sample_py [line_array] = Inl AttributeError
   \<and> parse_session sample_py [line_numeric_timestamp] = Inl AttributeError
   \<and> parse_session sample_py [line_text_message] = Inl AttributeError"
  by (simp add: eval_parse on_record_array on_record_numeric_timestamp
      on_record_text_message)

subsection \<open>C10: \<open>start_time\<close> and \<open>end_time\<close>\<close>

lemma parse_two_stamped:
  "parse_session sample_py ([line_session_start] @ [line_reply]) =
     Inr (new_session\<lparr>start_time := Some utc_1630, end_time := Some utc_1631,
            session_id := JStr (u ''s1''),
            messages := [\<lparr>role = JStr (u ''assistant''), text_field = u ''ok'',
                           timestamp = JStr (u ''2024-03-14T16:31:00Z'')\<rparr>]\<rparr>)"
  by (simp add: eval_parse on_record_session_start on_record_reply new_session_def)

text \<open>
  C10: after every prefix \<open>xs\<close> of a log that \<open>parse_session\<close> parses,
  \<open>start_time\<close> is \<open>None\<close> exactly when \<open>end_time\<close> is; \<open>start_time\<close> is the
  first parseable timestamp of the prefix and \<open>end_time\<close> the last one. Over
  the rest \<open>ys\<close> of the log a \<open>start_time\<close> that is set does not change, and
  \<open>end_time\<close> becomes the last parseable timestamp of \<open>ys\<close>, if there is one.
\<close>

theorem parse_session_times:
  assumes "parse_session py (xs @ ys) = Inr s2"
  shows "\<exists>s1. parse_session py xs = Inr s1
           \<and> (start_time s1 = None \<longleftrightarrow> end_time s1 = None)
           \<and> start_time s1 = (if record_times py xs = [] then None
                              else Some (hd (record_times py xs)))
           \<and> end_time s1 = (if record_times py xs = [] then None
                            else Some (last (record_times py xs)))
           \<and> (start_time s1 \<noteq> None \<longrightarrow> start_time s2 = start_time s1)
           \<and> end_time s2 = (if record_times py ys = [] then end_time s1
                            else Some (last (record_times py ys)))
           \<and> (start_time s2 = None \<longleftrightarrow> end_time s2 = None)"
proof -
  obtain s1 where 1: "parse_session py xs = Inr s1"
    and 2: "fold_records py s1 (decoded_records py ys) = Inr s2"
    using assms by (rule parse_session_append)
  have f: "fold_records py new_session (decoded_records py xs) = Inr s1"
    using 1 parse_lines_returned[of py new_session xs s1] by (simp add: parse_session_def)
  have st1: "start_time s1 = (if record_times py xs = [] then None
                              else Some (hd (record_times py xs)))"
    using fold_records_start_time[OF f] by (simp add: record_times_def new_session_def)
  have en1: "end_time s1 = (if record_times py xs = [] then None
                            else Some (last (record_times py xs)))"
    using fold_records_end_time[OF f] by (simp add: record_times_def new_session_def)
  have st2: "start_time s2 = (if start_time s1 \<noteq> None then start_time s1
                              else if record_times py ys = [] then None
                              else Some (hd (record_times py ys)))"
    using fold_records_start_time[OF 2] by (simp add: record_times_def)
  have en2: "end_time s2 = (if record_times py ys = [] then end_time s1
                            else Some (last (record_times py ys)))"
    using fold_records_end_time[OF 2] by (simp add: record_times_def)
  have iff1: "start_time s1 = None \<longleftrightarrow> end_time s1 = None"
    using st1 en1 by simp
  have iff2: "start_time s2 = None \<longleftrightarrow> end_time s2 = None"
    using st2 en2 iff1 by auto
  show ?thesis
    using 1 st1 en1 st2 en2 iff1 iff2 by auto
qed

theorem parse_session_times_witness:
  "\<exists>s1. parse_session sample_py [line_session_start] = Inr s1
         \<and> start_time s1 = Some utc_1630 \<and> end_time s1 = Some utc_1630"
  using parse_session_times[OF parse_two_stamped]
  by (simp add: eval_parse on_record_session_start new_session_def)

subsection \<open>C3: \<open>is_cron\<close> and \<open>cron_name\<close> over the parse\<close>

lemma parse_first_second:
  "parse_session sample_py ([line_cron_first] @ [line_cron_second]) =
     Inr (new_session\<lparr>is_cron := True, cron_name := u ''Second'',
            messages := [\<lparr>role = JStr (u ''user''), text_field = u ''[cron:a First] x'',
                           timestamp = JStr []\<rparr>,
                         \<lparr>role = JStr (u ''user''), text_field = u ''[cron:b Second] y'',
                           timestamp = JStr []\<rparr>]\<rparr>)"
  by (simp add: eval_parse on_record_cron_first on_record_cron_second new_session_def)

text \<open>
  C3 as stated fails in its second half: the name set by the first matching
  user message is overwritten by a later one. After the first sample line
  \<open>cron_name\<close> is \<open>First\<close>, after the second it is \<open>Second\<close>.
\<close>

theorem cron_name_overwritten_counterexample:
  "map_sum id cron_name (parse_session sample_py [line_cron_first]) = Inr (u ''First'')
   \<and> map_sum id cron_name (parse_session sample_py [line_cron_first, line_cron_second])
       = Inr (u ''Second'')"
  by (simp add: eval_parse on_record_cron_first on_record_cron_second new_session_def)

text \<open>
  C3, amended: once \<open>is_cron\<close> is true after a prefix \<open>xs\<close> of the log it is
  true after the whole log; \<open>cron_name\<close> is assigned by every user message
  whose text contains \<^verbatim>\<open>[cron:\<close> and matches the marker pattern, so after the
  rest \<open>ys\<close> it is the name of the last such message of \<open>ys\<close>, and unchanged
  when \<open>ys\<close> has none (the last match wins).
\<close>

theorem parse_session_cron_fields:
  assumes "parse_session py (xs @ ys) = Inr s2"
  shows "\<exists>s1. parse_session py xs = Inr s1
           \<and> (is_cron s1 \<longrightarrow> is_cron s2)
           \<and> cron_name s2 = (if cron_names py ys = [] then cron_name s1
                             else last (cron_names py ys))"
proof -
  obtain s1 where 1: "parse_session py xs = Inr s1"
    and 2: "fold_records py s1 (decoded_records py ys) = Inr s2"
    using assms by (rule parse_session_append)
  show ?thesis
    using 1 fold_records_is_cron[OF 2] fold_records_cron_name[OF 2]
    by (simp add: cron_names_def)
qed

theorem parse_session_cron_fields_witness:
  "\<exists>s1. parse_session sample_py [line_cron_first] = Inr s1
         \<and> is_cron s1 \<and> cron_name s1 = u ''First''
         \<and> cron_names sample_py [line_cron_second] = [u ''Second'']"
proof -
  have 1: "parse_session sample_py [line_cron_first] =
      Inr (new_session\<lparr>is_cron := True, cron_name := u ''First'',
             messages := [\<lparr>role = JStr (u ''user''), text_field = u ''[cron:a First] x'',
                            timestamp = JStr []\<rparr>]\<rparr>)"
    by (simp add: eval_parse on_record_cron_first new_session_def)
  have 2: "cron_names sample_py [line_cron_second] = [u ''Second'']"
    by (simp add: cron_names_def eval_parse record_cron_name_samples
        List.map_filter_simps)
  show ?thesis
    using parse_session_cron_fields[OF parse_first_second] 1 2 by simp
qed

subsection \<open>C4: when \<open>is_cron\<close> is set\<close>

text \<open>
  C4 as stated fails: a user message whose text contains \<^verbatim>\<open>[cron:\<close> without
  the rest of the marker sets \<open>is_cron\<close>. The sample line with the text
  \<^verbatim>\<open>[cron: pending\<close> does, and no record of that log matches the marker
  pattern.
\<close>

theorem is_cron_without_full_marker_counterexample:
  "map_sum id is_cron (parse_session sample_py [line_cron_partial]) = Inr True
   \<and> cron_names sample_py [line_cron_partial] = []"
proof -
  have "cron_names sample_py [line_cron_partial] = []"
    by (simp add: cron_names_def eval_parse record_cron_name_samples
        List.map_filter_simps)
  moreover have "map_sum id is_cron (parse_session sample_py [line_cron_partial]) = Inr True"
    by (simp add: eval_parse on_record_cron_partial new_session_def)
  ultimately show ?thesis by simp
qed

text \<open>
  C4, amended: \<open>parse_session\<close> sets \<open>is_cron\<close> exactly when some record of
  type \<open>"message"\<close> has role \<open>"user"\<close> and its flattened text contains the
  substring \<^verbatim>\<open>[cron:\<close>; the job id, the name and the closing bracket are not
  required.
\<close>

theorem parse_session_is_cron_iff:
  assumes "parse_session py ls = Inr s"
  shows "is_cron s \<longleftrightarrow> list_ex (\<lambda>r. user_cron_text r \<noteq> None) (decoded_records py ls)"
  using fold_records_is_cron[of py new_session "decoded_records py ls" s] assms
    parse_lines_returned[of py new_session ls s]
  by (simp add: parse_session_def new_session_def)

lemma parse_partial:
  "parse_session sample_py [line_cron_partial] =
     Inr (new_session\<lparr>is_cron := True,
            messages := [\<lparr>role = JStr (u ''user''), text_field = u ''[cron: pending'',
                           timestamp = JStr []\<rparr>]\<rparr>)"
  by (simp add: eval_parse on_record_cron_partial new_session_def)

theorem parse_session_is_cron_iff_witness:
  "list_ex (\<lambda>r. user_cron_text r \<noteq> None) (decoded_records sample_py [line_cron_partial])"
  using parse_session_is_cron_iff[OF parse_partial] by simp

subsection \<open>C8: sessions with fewer than two messages\<close>

text \<open>
  C8: a session with exactly one message (with fewer than two) is excluded
  by the noise filter whatever it contains, so the selection never appends
  it.
\<close>

theorem single_message_excluded:
  assumes "length (messages s) < 2"
  shows "\<not> noise_keep py s \<and> select_session py cf target s \<noteq> Inr (Some s)"
  using assms
  by (auto simp: noise_keep_def select_session_def split: sum.splits bool.splits)

theorem single_message_excluded_witness:
  "\<not> noise_keep sample_py (new_session\<lparr>messages := [disk_message]\<rparr>)"
  using single_message_excluded[of "new_session\<lparr>messages := [disk_message]\<rparr>" sample_py taipei "(2024, 3, 15)"]
  by simp

subsection \<open>C6: heartbeat sessions\<close>

text \<open>
  C6: let \<open>s\<close> be a cron session whose \<open>cron_name\<close>, lowered, contains
  \<open>heartbeat\<close>. If the only assistant message of \<open>s\<close> has the text
  \<open>HEARTBEAT_OK\<close>, the noise filter excludes \<open>s\<close>; with one more assistant
  message, anywhere in the list, whose text is not empty, is neither
  sentinel and does not start with \<open><\<close> (such as \<open>Disk usage at 92%\<close>), the
  filter keeps it.
\<close>

theorem heartbeat_noise:
  assumes "is_cron s" and "contains (u ''heartbeat'') (lower py (cron_name s))"
    and "filter (\<lambda>m. role m = JStr (u ''assistant'')) (messages s) = [m0]"
    and "text_field m0 = u ''HEARTBEAT_OK''"
    and "messages s = before @ after"
    and "role extra = JStr (u ''assistant'')"
    and "text_field extra \<noteq> []"
    and "text_field extra \<noteq> u ''HEARTBEAT_OK''"
    and "text_field extra \<noteq> u ''NO_REPLY''"
    and "\<not> prefix (u ''<'') (text_field extra)"
  shows "\<not> noise_keep py s
         \<and> noise_keep py (s\<lparr>messages := before @ [extra] @ after\<rparr>)"
proof -
  have hb: "is_hb py s"
    using assms(1,2) by (simp add: is_hb_def)
  have "\<not> substantive m" if "m \<in> set (messages s)" for m
  proof
    assume sub: "substantive m"
    then have "m \<in> set (filter (\<lambda>m. role m = JStr (u ''assistant'')) (messages s))"
      using that by (simp add: substantive_def)
    then have "m = m0"
      using assms(3) by simp
    then show False
      using sub assms(4) by (simp add: substantive_def)
  qed
  then have no: "\<not> has_substance s"
    by (auto simp: has_substance_def list_ex_iff)
  have "m0 \<in> set (messages s)"
  proof -
    have "m0 \<in> set (filter (\<lambda>m. role m = JStr (u ''assistant'')) (messages s))"
      using assms(3) by simp
    then show ?thesis by simp
  qed
  then have len: "1 \<le> length (messages s)"
    by (cases "messages s") auto
  have sub: "substantive extra"
    using assms(6-10) by (simp add: substantive_def)
  have 1: "\<not> noise_keep py s"
    using hb no by (simp add: noise_keep_def)
  have 2: "noise_keep py (s\<lparr>messages := before @ [extra] @ after\<rparr>)"
    using len sub assms(5) by (auto simp: noise_keep_def has_substance_def)
  show ?thesis
    using 1 2 by simp
qed

theorem heartbeat_noise_witness:
  "\<not> noise_keep sample_py heartbeat_session
   \<and> noise_keep sample_py
        (heartbeat_session\<lparr>messages := messages heartbeat_session @ [disk_message]\<rparr>)"
proof -
  have 1: "contains (u ''heartbeat'') (lower sample_py (cron_name heartbeat_session))"
    by (simp add: sample_py_fields heartbeat_session_def ascii_lower_def u_def)
  have 2: "filter (\<lambda>m. role m = JStr (u ''assistant'')) (messages heartbeat_session)
            = [\<lparr>role = JStr (u ''assistant''), text_field = u ''HEARTBEAT_OK'',
                    timestamp = JStr []\<rparr>]"
    by (simp add: heartbeat_session_def)
  show ?thesis
    using heartbeat_noise[of heartbeat_session sample_py _ "messages heartbeat_session" "[]" disk_message, OF _ 1 2]
    by (simp add: heartbeat_session_def disk_message_def u_def)
qed

subsection \<open>Evaluating dates\<close>

lemmas eval_time = astimezone_def add_micros_def wall_micros_def of_wall_micros_def
  ymd2ord_def ord2ymd_def days_before_year_def days_before_month_def is_leap_def
  DAYS_BEFORE_MONTH_def DAYS_IN_MONTH_def DAY_US_def MAXORDINAL_def LOCAL_TZ_def date_of_def Let_def

subsection \<open>C5: the cron marker of the example\<close>

lemma render_hello: "render_text (u ''[cron:job1 Daily Report] hello'') = u ''hello''"
  by (simp add: render_text_def eval_marker)

text \<open>
  C5: a log whose one record is a message with role \<open>user\<close> and the text
  \<^verbatim>\<open>[cron:job1 Daily Report] hello\<close> parses to a session with \<open>is_cron\<close>
  true and \<open>cron_name\<close> \<open>Daily Report\<close>; its transcript is the user line with
  the text \<open>hello\<close> and the blank line after it, and these are the last two
  of the five lines of the digest block.
\<close>

theorem cron_hello_parsed_and_rendered:
  assumes "strip l \<noteq> []" and "loads py (strip l) = Decoded rec_cron_hello"
  shows "\<exists>s. parse_session py [l] = Inr s \<and> is_cron s
           \<and> cron_name s = u ''Daily Report''
           \<and> transcript_lines (messages s) = [user_tag @ u ''hello'', []]
           \<and> digest_lines py cf s =
               Inr [u ''### ??:?? '' @ [129302] @ u '' Cron: Daily Report'',
                    u ''- **Model**: '' @ format_value py (JStr []),
                    [],
                    user_tag @ u ''hello'',
                    []]"
proof -
  define s0 where "s0 = new_session\<lparr>is_cron := True, cron_name := u ''Daily Report'',
            messages := [\<lparr>role = JStr (u ''user''),
                           text_field = u ''[cron:job1 Daily Report] hello'',
                           timestamp = JStr []\<rparr>]\<rparr>"
  have p: "parse_session py [l] = Inr s0"
    using assms by (simp add: parse_session_def on_record_cron_hello s0_def new_session_def)
  have c: "is_cron s0" "cron_name s0 = u ''Daily Report''"
    by (simp_all add: s0_def new_session_def)
  have t: "transcript_lines (messages s0) = [user_tag @ u ''hello'', []]"
    by (simp add: s0_def new_session_def transcript_lines_def message_lines_def render_hello)
  have d: "digest_lines py cf s0 =
               Inr [u ''### ??:?? '' @ [129302] @ u '' Cron: Daily Report'',
                    u ''- **Model**: '' @ format_value py (JStr []),
                    [],
                    user_tag @ u ''hello'',
                    []]"
    unfolding digest_lines_def t
    by (simp add: s0_def new_session_def time_str_def tools_line_def u_def)
  show ?thesis
    using p c t d by blast
qed

theorem cron_hello_parsed_and_rendered_witness:
  "\<exists>s. parse_session sample_py [line_cron_hello] = Inr s \<and> is_cron s
       \<and> cron_name s = u ''Daily Report''
       \<and> transcript_lines (messages s) = [user_tag @ u ''hello'', []]"
proof -
  have 1: "strip line_cron_hello \<noteq> []"
    by (simp add: strip_lines lines_nonempty)
  have 2: "loads sample_py (strip line_cron_hello) = Decoded rec_cron_hello"
    by (simp add: strip_lines sample_py_fields sample_loads_lines)
  show ?thesis
    using cron_hello_parsed_and_rendered[OF 1 2] by blast
qed

subsection \<open>C2: the cut and the markers\<close>

lemma contains_iff_sublist: "contains p xs \<longleftrightarrow> sublist p xs"
  by (induction xs) (auto simp: sublist_Cons_right)




lemma contains_cron_prefix_bracket: "contains cron_prefix t \<Longrightarrow> 91 \<in> set t"
proof -
  assume "contains cron_prefix t"
  then have "set cron_prefix \<subseteq> set t"
    by (auto simp: contains_iff_sublist sublist_def)
  then show ?thesis
    by (simp add: cron_prefix_def u_def)
qed














subsection \<open>C9: no digest file without sessions\<close>

lemma parse_sample_log:
  "parse_session sample_py [line_session_start, line_reply] =
     Inr (new_session\<lparr>start_time := Some utc_1630, end_time := Some utc_1631,
            session_id := JStr (u ''s1''),
            messages := [\<lparr>role = JStr (u ''assistant''), text_field = u ''ok'',
                           timestamp = JStr (u ''2024-03-14T16:31:00Z'')\<rparr>]\<rparr>)"
  using parse_two_stamped by simp

lemma sample_world_selection:
  "selected_sessions sample_py taipei sample_world (2024, 3, 15) = Inr []"
proof -
  have b: "day_bounds sample_py taipei (2024, 3, 15) =
      Inr (\<lparr>year = 2024, month = 3, day = 14, hour = 16, minute = 0, second = 0,
             microsecond = 0, tzinfo = Some 0\<rparr>,
           \<lparr>year = 2024, month = 3, day = 15, hour = 15, minute = 59, second = 59,
             microsecond = 0, tzinfo = Some 0\<rparr>)"
    by (simp add: day_bounds_def target_at_def taipei_def eval_time)
  have m: "mtime_outside \<lparr>year = 2024, month = 3, day = 14, hour = 16, minute = 0, second = 0,
             microsecond = 0, tzinfo = Some 0\<rparr>
           \<lparr>year = 2024, month = 3, day = 15, hour = 15, minute = 59, second = 59,
             microsecond = 0, tzinfo = Some 0\<rparr> utc_1631 = Inr False"
    by (simp add: mtime_outside_def utc_micros_def utc_1631_def eval_time)
  have s: "select_session sample_py taipei (2024, 3, 15)
       (new_session\<lparr>start_time := Some utc_1630, end_time := Some utc_1631,
            session_id := JStr (u ''s1''),
            messages := [\<lparr>role = JStr (u ''assistant''), text_field = u ''ok'',
                           timestamp = JStr (u ''2024-03-14T16:31:00Z'')\<rparr>]\<rparr>) = Inr None"
    by (simp add: select_session_def on_target_date_def noise_keep_def new_session_def
        utc_1630_def taipei_def eval_time)
  show ?thesis
    by (simp add: selected_sessions_def b sample_world_def m parse_sample_log s
        sort_sessions_def)
qed

lemma process_date_writes:
  assumes "strptime_ymd py target_date = Some target"
    and "selected_sessions py cf w target = Inr (s # ss)"
    and "digest_document py cf target_date (s # ss) = Inr doc"
  shows "digest_files (fst (process_date py cf w target_date)) (target_date @ u ''.md'')
           = Some doc"
  using assms by (simp add: process_date_def Let_def)

text \<open>
  C9: when the selection for the target date returns no session,
  \<open>process_date\<close> prints the notice and returns; the digest directory, the
  digest files and the logs are as they were.
\<close>

theorem no_sessions_no_file:
  assumes "strptime_ymd py target_date = Some target"
    and "selected_sessions py cf w target = Inr []"
  shows "process_date py cf w target_date =
           (w\<lparr>stdout := stdout w @
                [[128237] @ u '' '' @ target_date @ u '': No sessions to digest'']\<rparr>, None)
         \<and> digest_files (fst (process_date py cf w target_date)) = digest_files w
         \<and> digest_dir_exists (fst (process_date py cf w target_date)) = digest_dir_exists w
         \<and> session_files (fst (process_date py cf w target_date)) = session_files w"
  using assms by (simp add: process_date_def)

theorem no_sessions_no_file_witness:
  "process_date sample_py taipei sample_world (u ''2024-03-15'') =
     (sample_world\<lparr>stdout := [[128237] @ u '' 2024-03-15: No sessions to digest'']\<rparr>, None)"
proof -
  have 1: "strptime_ymd sample_py (u ''2024-03-15'') = Some (2024, 3, 15)"
    by (simp add: sample_py_fields sample_strptime_def)
  show ?thesis
    using no_sessions_no_file[OF 1 sample_world_selection]
    by (simp add: sample_world_def u_def)
qed

subsection \<open>C7: selection by local date\<close>

lemma select_session_Some:
  "select_session py cf target s = Inr (Some k) \<longleftrightarrow>
     k = s \<and> on_target_date py cf target s = Inr True \<and> noise_keep py s"
  by (auto simp: select_session_def split: sum.splits bool.splits if_splits)

lemma select_sessions_sound:
  "select_sessions py cf target lo hi fs = Inr ss \<Longrightarrow> s \<in> set ss \<Longrightarrow>
     select_session py cf target s = Inr (Some s)"
proof (induction fs arbitrary: ss)
  case Nil
  then show ?case by simp
next
  case (Cons f fs)
  then show ?case
    by (auto simp: select_session_Some split: sum.splits bool.splits option.splits)
qed

lemma select_sessions_complete:
  "select_sessions py cf target lo hi fs = Inr ss \<Longrightarrow> f \<in> set fs \<Longrightarrow>
     mtime_outside lo hi (mtime f) = Inr False \<Longrightarrow>
     parse_session py (file_lines f) = Inr s \<Longrightarrow>
     select_session py cf target s = Inr (Some s) \<Longrightarrow> s \<in> set ss"
proof (induction fs arbitrary: ss)
  case Nil
  then show ?case by simp
next
  case (Cons g fs)
  then show ?case
    by (auto split: sum.splits bool.splits option.splits)
qed

lemma sort_sessions_set: "sort_sessions ss = Inr ss' \<Longrightarrow> set ss' = set ss"
  by (auto simp: sort_sessions_def split: if_splits)

lemma day_bounds_plus8:
  "local_tz_hours cf = 8 \<Longrightarrow>
     day_bounds py cf (2024, 3, 15) = Inr (day_start_utc, day_end_utc)"
  by (simp add: day_bounds_def target_at_def day_start_utc_def day_end_utc_def eval_time)

lemma parse_late_log:
  "parse_session sample_py [line_session_start, line_reply, line_reply] = Inr late_session"
  by (simp add: eval_parse on_record_session_start on_record_reply new_session_def
      late_session_def reply_message_def)

lemma parse_early_log:
  "parse_session sample_py [line_early_start, line_reply, line_reply] = Inr early_session"
  by (simp add: eval_parse on_record_early_start on_record_reply new_session_def
      early_session_def reply_message_def)

lemma parse_short_log:
  "parse_session sample_py [line_session_start, line_reply] = Inr short_session"
  by (simp add: eval_parse on_record_session_start on_record_reply new_session_def
      short_session_def reply_message_def)

lemma mtime_sample: "mtime_outside day_start_utc day_end_utc utc_1631 = Inr False"
  by (simp add: mtime_outside_def utc_micros_def utc_1631_def day_start_utc_def
      day_end_utc_def eval_time)

lemma select_late: "select_session sample_py taipei (2024, 3, 15) late_session = Inr (Some late_session)"
  by (simp add: select_session_def on_target_date_def noise_keep_def is_hb_def late_session_def
      utc_1630_def taipei_def eval_time)

lemma select_early: "select_session sample_py taipei (2024, 3, 15) early_session = Inr None"
  by (simp add: select_session_def on_target_date_def early_session_def
      utc_155959_def taipei_def eval_time)

lemma two_log_selection:
  "selected_sessions sample_py taipei two_log_world (2024, 3, 15) = Inr [late_session]"
proof -
  have b: "day_bounds sample_py taipei (2024, 3, 15) = Inr (day_start_utc, day_end_utc)"
    by (rule day_bounds_plus8) (simp add: taipei_def)
  have k: "tzinfo (sort_key_of late_session) \<noteq> None"
    by (simp add: sort_key_of_def late_session_def utc_1630_def)
  show ?thesis
    using k
    by (simp add: selected_sessions_def b two_log_world_def early_log_def late_log_def
        mtime_sample parse_late_log parse_early_log select_late select_early
        sort_sessions_def)
qed

text \<open>
  C7 as stated fails: a session that starts at 2024-03-14T16:30:00Z is not
  included by its date alone. The log of \<open>sample_world\<close> passes the test on
  the modification time and parses to a session with that start and one
  message; the session passes the date test, and the selection for
  2024-03-15 at eight hours ahead of UTC is empty.
\<close>

theorem one_message_session_counterexample:
  "parse_session sample_py (file_lines (hd (session_files sample_world))) = Inr short_session
   \<and> start_time short_session = Some utc_1630
   \<and> day_bounds sample_py taipei (2024, 3, 15) = Inr (day_start_utc, day_end_utc)
   \<and> mtime_outside day_start_utc day_end_utc (mtime (hd (session_files sample_world)))
       = Inr False
   \<and> on_target_date sample_py taipei (2024, 3, 15) short_session = Inr True
   \<and> selected_sessions sample_py taipei sample_world (2024, 3, 15) = Inr []"
proof -
  have b: "day_bounds sample_py taipei (2024, 3, 15) = Inr (day_start_utc, day_end_utc)"
    by (rule day_bounds_plus8) (simp add: taipei_def)
  have d: "on_target_date sample_py taipei (2024, 3, 15) short_session = Inr True"
    by (simp add: on_target_date_def short_session_def utc_1630_def taipei_def eval_time)
  show ?thesis
    using b d sample_world_selection
    by (simp add: sample_world_def parse_short_log mtime_sample short_session_def)
qed

text \<open>
  C7, amended: let the selection for the target date 2024-03-15, with
  \<open>LOCAL_TZ\<close> eight hours ahead of UTC, return the list \<open>ss\<close>, and let \<open>s\<close>
  be the session parsed from a log that passes the test on the modification
  time (against the UTC bounds of that local day, 2024-03-14T16:00:00Z and
  2024-03-15T15:59:59Z). If \<open>s\<close> starts at 2024-03-14T16:30:00Z it passes the date test (its
  local date is the target date) and is in \<open>ss\<close> exactly when the noise
  filter keeps it: it has at least two messages and is not a heartbeat
  session without substance. If \<open>s\<close> starts at 2024-03-14T15:59:59Z it
  fails the date test and is not in \<open>ss\<close>, whatever it contains.
\<close>

theorem selection_by_local_date:
  assumes "local_tz_hours cf = 8"
    and "selected_sessions py cf w (2024, 3, 15) = Inr ss"
    and "f \<in> set (session_files w)"
    and "mtime_outside day_start_utc day_end_utc (mtime f) = Inr False"
    and "parse_session py (file_lines f) = Inr s"
  shows "day_bounds py cf (2024, 3, 15) = Inr (day_start_utc, day_end_utc)
       \<and> (start_time s = Some \<lparr>year = 2024, month = 3, day = 14, hour = 16, minute = 30,
                              second = 0, microsecond = 0, tzinfo = Some 0\<rparr>
          \<longrightarrow> on_target_date py cf (2024, 3, 15) s = Inr True
              \<and> (s \<in> set ss \<longleftrightarrow>
                   2 \<le> length (messages s) \<and> \<not> (is_hb py s \<and> \<not> has_substance s)))
       \<and> (start_time s = Some \<lparr>year = 2024, month = 3, day = 14, hour = 15, minute = 59,
                              second = 59, microsecond = 0, tzinfo = Some 0\<rparr>
          \<longrightarrow> on_target_date py cf (2024, 3, 15) s = Inr False \<and> s \<notin> set ss)"
proof -
  obtain found where sel: "select_sessions py cf (2024, 3, 15) day_start_utc day_end_utc
        (session_files w) = Inr found"
    and srt: "sort_sessions found = Inr ss"
    using assms(2) day_bounds_plus8[OF assms(1), of py]
    by (auto simp: selected_sessions_def split: sum.splits)
  have mem: "s \<in> set ss \<longleftrightarrow> select_session py cf (2024, 3, 15) s = Inr (Some s)"
    using select_sessions_sound[OF sel, of s]
      select_sessions_complete[OF sel assms(3) assms(4) assms(5)]
      sort_sessions_set[OF srt]
    by auto
  have late: "on_target_date py cf (2024, 3, 15) s = Inr True
        \<and> (s \<in> set ss \<longleftrightarrow>
             2 \<le> length (messages s) \<and> \<not> (is_hb py s \<and> \<not> has_substance s))"
    if "start_time s = Some \<lparr>year = 2024, month = 3, day = 14, hour = 16, minute = 30,
                              second = 0, microsecond = 0, tzinfo = Some 0\<rparr>"
  proof -
    have d: "on_target_date py cf (2024, 3, 15) s = Inr True"
      using that assms(1) by (simp add: on_target_date_def eval_time)
    then have "select_session py cf (2024, 3, 15) s = Inr (Some s) \<longleftrightarrow> noise_keep py s"
      by (simp add: select_session_def)
    then show ?thesis
      using d mem by (auto simp: noise_keep_def)
  qed
  have early: "on_target_date py cf (2024, 3, 15) s = Inr False \<and> s \<notin> set ss"
    if "start_time s = Some \<lparr>year = 2024, month = 3, day = 14, hour = 15, minute = 59,
                              second = 59, microsecond = 0, tzinfo = Some 0\<rparr>"
  proof -
    have d: "on_target_date py cf (2024, 3, 15) s = Inr False"
      using that assms(1) by (simp add: on_target_date_def eval_time)
    then have "select_session py cf (2024, 3, 15) s = Inr None"
      by (simp add: select_session_def)
    then show ?thesis
      using d mem by simp
  qed
  show ?thesis
    using late early day_bounds_plus8[OF assms(1), of py] by blast
qed

theorem selection_by_local_date_witness:
  "selected_sessions sample_py taipei two_log_world (2024, 3, 15) = Inr [late_session]
   \<and> parse_session sample_py (file_lines late_log) = Inr late_session
   \<and> parse_session sample_py (file_lines early_log) = Inr early_session
   \<and> late_session \<in> set [late_session]
   \<and> early_session \<notin> set [late_session]"
proof -
  have t: "local_tz_hours taipei = 8"
    by (simp add: taipei_def)
  have pl: "parse_session sample_py (file_lines late_log) = Inr late_session"
    by (simp add: late_log_def parse_late_log)
  have pe: "parse_session sample_py (file_lines early_log) = Inr early_session"
    by (simp add: early_log_def parse_early_log)
  have ml: "mtime_outside day_start_utc day_end_utc (mtime late_log) = Inr False"
    by (simp add: late_log_def mtime_sample)
  have me: "mtime_outside day_start_utc day_end_utc (mtime early_log) = Inr False"
    by (simp add: early_log_def mtime_sample)
  have fl: "late_log \<in> set (session_files two_log_world)"
    and fe: "early_log \<in> set (session_files two_log_world)"
    by (simp_all add: two_log_world_def)
  have "late_session \<in> set [late_session]"
    using selection_by_local_date[OF t two_log_selection fl ml pl]
    by simp
  moreover have "early_session \<notin> set [late_session]"
    using selection_by_local_date[OF t two_log_selection fe me pe]
    by (simp add: early_session_def utc_155959_def)
  ultimately show ?thesis
    using two_log_selection pl pe by simp
qed

end
